theory Spec2Isabelle
  imports Complex_Main "HOL-Library.Code_Target_Numeral"
begin

section \<open>JavaScript values of the style panel\<close>

text \<open>
  The module \<^verbatim>\<open>events.js\<close> handles strings, numbers, \<^verbatim>\<open>null\<close> and
  \<^verbatim>\<open>undefined\<close>. Strings are lists of 8-bit characters. A finite Number is the
  rational value of a binary64 double; negative zero is identified with zero, which no
  operation of the module tells apart.
\<close>

datatype jsnum = NaN | PosInf | NegInf | Fin rat

datatype jsval = JUndefined | JNull | JBool bool | JNum jsnum | JStr string

subsection \<open>Characters and strings\<close>

definition isDigit :: "char \<Rightarrow> bool" where
  "isDigit c = (c \<in> set ''0123456789'')"

definition isHexDigit :: "char \<Rightarrow> bool" where
  \<comment> \<open>the class \<^verbatim>\<open>[0-9A-F]\<close> under the \<^verbatim>\<open>i\<close> flag\<close>
  "isHexDigit c = (c \<in> set ''0123456789ABCDEFabcdef'')"

definition isWhiteSpace :: "char \<Rightarrow> bool" where
  \<comment> \<open>WhiteSpace and LineTerminator below U+0100: TAB, LF, VT, FF, CR, SP, NBSP;
      this is also the class \<^verbatim>\<open>\s\<close>\<close>
  "isWhiteSpace c = ((of_char c :: nat) \<in> {9, 10, 11, 12, 13, 32, 160})"

definition digitValue :: "char \<Rightarrow> nat" where
  \<comment> \<open>the value of a digit in radix up to 36; 36 for any other character\<close>
  "digitValue c =
     (let n = (of_char c :: nat) in
      if 48 \<le> n \<and> n \<le> 57 then n - 48
      else if 97 \<le> n \<and> n \<le> 122 then n - 87
      else if 65 \<le> n \<and> n \<le> 90 then n - 55
      else 36)"

definition radixValue :: "nat \<Rightarrow> string \<Rightarrow> nat" where
  "radixValue R ds = foldl (\<lambda>acc c. R * acc + digitValue c) 0 ds"

definition upperChar :: "char \<Rightarrow> char" where
  \<comment> \<open>the letters a to z have an upper-case form; no other 8-bit character is changed\<close>
  "upperChar c =
     (case map_of (zip ''abcdefghijklmnopqrstuvwxyz'' ''ABCDEFGHIJKLMNOPQRSTUVWXYZ'') c of
        Some u \<Rightarrow> u
      | None \<Rightarrow> c)"

definition toUpperCase :: "string \<Rightarrow> string" where
  "toUpperCase s = map upperChar s"

definition trimStart :: "string \<Rightarrow> string" where
  "trimStart s = dropWhile isWhiteSpace s"

definition trim :: "string \<Rightarrow> string" where
  "trim s = rev (dropWhile isWhiteSpace (rev (trimStart s)))"

primrec stripPrefix :: "string \<Rightarrow> string \<Rightarrow> string option" where
  "stripPrefix [] s = Some s"
| "stripPrefix (p # ps) s =
     (case s of [] \<Rightarrow> None | c # cs \<Rightarrow> if c = p then stripPrefix ps cs else None)"

definition startsWith :: "string \<Rightarrow> string \<Rightarrow> bool" where
  "startsWith s p = (stripPrefix p s \<noteq> None)"

fun replaceFirst :: "string \<Rightarrow> string \<Rightarrow> string \<Rightarrow> string" where
  \<comment> \<open>\<^verbatim>\<open>s.replace(pat, rep)\<close> with a string pattern: the first occurrence only\<close>
  "replaceFirst pat rep s =
     (case stripPrefix pat s of
        Some rest \<Rightarrow> rep @ rest
      | None \<Rightarrow> (case s of [] \<Rightarrow> [] | c # cs \<Rightarrow> c # replaceFirst pat rep cs))"

definition substring :: "string \<Rightarrow> nat \<Rightarrow> nat \<Rightarrow> string" where
  "substring s i j = take (j - i) (drop i s)"

subsection \<open>Rounding to binary64\<close>

text \<open>
  A Number is a binary64 value. \<open>binary64 r\<close> is the Number nearest to the rational \<open>r\<close>,
  the even mantissa winning a tie: the mantissa has 53 bits, the least unit is \<open>2^-1074\<close>,
  and what rounds to \<open>2^1024\<close> or more is infinite.
\<close>

fun bitLength :: "nat \<Rightarrow> nat" where
  "bitLength n = (if n = 0 then 0 else Suc (bitLength (n div 2)))"

declare bitLength.simps [simp del]

function shiftsToReach :: "nat \<Rightarrow> nat \<Rightarrow> nat" where
  \<comment> \<open>for \<open>0 < p < q\<close>: the least \<open>k\<close> with \<open>q \<le> p * 2^k\<close>\<close>
  "shiftsToReach p q = (if p = 0 \<or> q \<le> p then 0 else Suc (shiftsToReach (2 * p) q))"
  by pat_completeness auto
termination
  by (relation "measure (\<lambda>(p, q). q - p)") auto

declare shiftsToReach.simps [simp del]

definition roundHalfEven :: "nat \<Rightarrow> nat \<Rightarrow> nat" where
  \<comment> \<open>the integer nearest to \<open>a/b\<close>, the even one at a tie\<close>
  "roundHalfEven a b =
     (let fl = a div b; rm = a mod b in
      if 2 * rm < b then fl
      else if b < 2 * rm then fl + 1
      else if even fl then fl else fl + 1)"

definition pow2 :: "int \<Rightarrow> rat" where
  "pow2 k = (if 0 \<le> k then 2 ^ nat k else 1 / 2 ^ nat (- k))"

definition binary64pos :: "nat \<Rightarrow> nat \<Rightarrow> jsnum" where
  \<comment> \<open>the Number nearest to the positive rational \<open>p/q\<close>: \<open>e\<close> is its binary exponent,
      \<open>2^t\<close> the unit in the last place, \<open>m\<close> the rounded mantissa\<close>
  "binary64pos p q =
     (let e = (if q \<le> p then int (bitLength (p div q)) - 1 else - int (shiftsToReach p q));
          t = max (e - 52) (- 1074);
          m = (if 0 \<le> t then roundHalfEven p (q * 2 ^ nat t)
               else roundHalfEven (p * 2 ^ nat (- t)) q)
      in if 1024 \<le> e \<or> (e = 1023 \<and> m = 2 ^ 53) then PosInf
         else Fin (of_nat m * pow2 t))"

definition binary64 :: "rat \<Rightarrow> jsnum" where
  "binary64 r =
     (let (p, q) = quotient_of r in
      if p = 0 then Fin 0
      else if 0 < p then binary64pos (nat p) (nat q)
      else (case binary64pos (nat (- p)) (nat q) of
              Fin v \<Rightarrow> Fin (- v)
            | _ \<Rightarrow> NegInf))"

subsection \<open>Numbers from text\<close>

definition pow10 :: "int \<Rightarrow> rat" where
  "pow10 k = (if 0 \<le> k then 10 ^ nat k else 1 / 10 ^ nat (- k))"

definition optSign :: "string \<Rightarrow> int \<times> string" where
  "optSign s =
     (case s of
        c # cs \<Rightarrow> if c = CHR ''+'' then (1, cs) else if c = CHR ''-'' then (- 1, cs) else (1, s)
      | [] \<Rightarrow> (1, s))"

definition scanExponent :: "string \<Rightarrow> int \<times> string" where
  \<comment> \<open>an ExponentPart \<^verbatim>\<open>[eE][+-]?[0-9]+\<close> if one is complete here, else exponent 0\<close>
  "scanExponent s =
     (case s of
        c # cs \<Rightarrow>
          if c = CHR ''e'' \<or> c = CHR ''E'' then
            (let (sg, t) = optSign cs; ds = takeWhile isDigit t in
             if ds = [] then (0, s)
             else ((if sg < 0 then - int (radixValue 10 ds) else int (radixValue 10 ds)),
                   dropWhile isDigit t))
          else (0, s)
      | [] \<Rightarrow> (0, s))"

definition scanDecimal :: "string \<Rightarrow> (jsnum \<times> string) option" where
  \<comment> \<open>the longest prefix that is a StrDecimalLiteral, its value as a Number, and the rest\<close>
  "scanDecimal s =
     (let (sg, s1) = optSign s in
      case stripPrefix ''Infinity'' s1 of
        Some rest \<Rightarrow> Some ((if sg < 0 then NegInf else PosInf), rest)
      | None \<Rightarrow>
          (let ip = takeWhile isDigit s1;
               s2 = dropWhile isDigit s1;
               dot = (s2 \<noteq> [] \<and> hd s2 = CHR ''.'');
               fp = (if dot then takeWhile isDigit (tl s2) else []);
               s3 = (if dot then dropWhile isDigit (tl s2) else s2)
           in if ip = [] \<and> fp = [] then None
              else (let (ex, rest) = scanExponent s3 in
                    Some (binary64 (of_int sg * of_nat (radixValue 10 (ip @ fp))
                                      * pow10 (ex - int (length fp))),
                          rest))))"

definition parseFloat :: "string \<Rightarrow> jsnum" where
  "parseFloat s = (case scanDecimal (trimStart s) of None \<Rightarrow> NaN | Some (v, rest) \<Rightarrow> v)"

definition scanRadixLiteral :: "string \<Rightarrow> jsnum option" where
  \<comment> \<open>\<^verbatim>\<open>0x\<close>, \<^verbatim>\<open>0o\<close> and \<^verbatim>\<open>0b\<close> integer literals; None when the text does not start as one\<close>
  "scanRadixLiteral s =
     (case s of
        z # p # ds \<Rightarrow>
          (let R = (if p \<in> set ''xX'' then 16 else if p \<in> set ''oO'' then 8
                    else if p \<in> set ''bB'' then 2 else 0 :: nat)
           in if z = CHR ''0'' \<and> R \<noteq> 0 then
                Some (if ds \<noteq> [] \<and> list_all (\<lambda>c. digitValue c < R) ds
                      then binary64 (of_nat (radixValue R ds)) else NaN)
              else None)
      | _ \<Rightarrow> None)"

definition StringToNumber :: "string \<Rightarrow> jsnum" where
  "StringToNumber s =
     (let t = trim s in
      if t = [] then Fin 0
      else case scanRadixLiteral t of
             Some v \<Rightarrow> v
           | None \<Rightarrow> (case scanDecimal t of
                         Some (v, rest) \<Rightarrow> if rest = [] then v else NaN
                       | None \<Rightarrow> NaN))"

fun ToNumber :: "jsval \<Rightarrow> jsnum" where
  "ToNumber JUndefined = NaN"
| "ToNumber JNull = Fin 0"
| "ToNumber (JBool b) = (if b then Fin 1 else Fin 0)"
| "ToNumber (JNum n) = n"
| "ToNumber (JStr s) = StringToNumber s"

fun num_le :: "jsnum \<Rightarrow> jsnum \<Rightarrow> bool" where
  \<comment> \<open>\<^verbatim>\<open>a <= b\<close> on Numbers: false as soon as one side is NaN\<close>
  "num_le NaN _ = False"
| "num_le _ NaN = False"
| "num_le NegInf _ = True"
| "num_le _ PosInf = True"
| "num_le PosInf _ = False"
| "num_le _ NegInf = False"
| "num_le (Fin a) (Fin b) = (a \<le> b)"

definition js_ge :: "jsval \<Rightarrow> jsnum \<Rightarrow> bool" where
  \<comment> \<open>\<^verbatim>\<open>v >= n\<close> for a Number \<open>n\<close>: the left operand is coerced by ToNumber\<close>
  "js_ge v n = num_le n (ToNumber v)"

definition js_le :: "jsval \<Rightarrow> jsnum \<Rightarrow> bool" where
  "js_le v n = num_le (ToNumber v) n"

definition Math_min :: "jsnum \<Rightarrow> jsnum \<Rightarrow> jsnum" where
  "Math_min a b = (if a = NaN \<or> b = NaN then NaN else if num_le a b then a else b)"

definition Math_max :: "jsnum \<Rightarrow> jsnum \<Rightarrow> jsnum" where
  "Math_max a b = (if a = NaN \<or> b = NaN then NaN else if num_le a b then b else a)"

subsection \<open>Text from numbers\<close>

fun decimal :: "nat \<Rightarrow> string" where
  "decimal n =
     (if n < 10 then [''0123456789'' ! n] else decimal (n div 10) @ [''0123456789'' ! (n mod 10)])"

declare decimal.simps [simp del]

fun toString16 :: "nat \<Rightarrow> string" where
  \<comment> \<open>\<^verbatim>\<open>n.toString(16)\<close> for a non-negative integer\<close>
  "toString16 n =
     (if n < 16 then [''0123456789abcdef'' ! n]
      else toString16 (n div 16) @ [''0123456789abcdef'' ! (n mod 16)])"

declare toString16.simps [simp del]

definition padStart2 :: "string \<Rightarrow> string" where
  \<comment> \<open>\<^verbatim>\<open>s.padStart(2, '0')\<close>\<close>
  "padStart2 s = replicate (2 - length s) CHR ''0'' @ s"

function leadingZeros :: "nat \<Rightarrow> nat \<Rightarrow> nat" where
  \<comment> \<open>for \<open>0 < p < q\<close>: the number of zeros between the point and the first digit of \<open>p/q\<close>\<close>
  "leadingZeros p q = (if p = 0 \<or> q \<le> 10 * p then 0 else Suc (leadingZeros (10 * p) q))"
  by pat_completeness auto
termination
  by (relation "measure (\<lambda>(p, q). q - p)") auto

declare leadingZeros.simps [simp del]

definition stripZeros :: "string \<Rightarrow> string" where
  "stripZeros ds = rev (dropWhile (\<lambda>c. c = CHR ''0'') (rev ds))"

definition decimalExponent :: "nat \<Rightarrow> nat \<Rightarrow> int" where
  \<comment> \<open>for the positive value \<open>p/q\<close>: the \<open>n\<close> with \<open>10^(n-1) \<le> p/q < 10^n\<close>\<close>
  "decimalExponent p q =
     (if q \<le> p then int (length (decimal (p div q))) else - int (leadingZeros p q))"

definition positiveToString :: "nat \<Rightarrow> nat \<Rightarrow> string" where
  \<comment> \<open>the text of the positive decimal \<open>p/q\<close> of at most 17 significant digits, in the
      layout of Number::toString: \<open>n\<close> is the decimal exponent, \<open>ds\<close> the significant
      digits, \<open>k\<close> their number\<close>
  "positiveToString p q =
     (let n = decimalExponent p q;
          scaled = (if n \<le> 17 then (p * 10 ^ nat (17 - n)) div q else p div (q * 10 ^ nat (n - 17)));
          ds = stripZeros (decimal scaled);
          k = int (length ds)
      in if k \<le> n \<and> n \<le> 21 then ds @ replicate (nat (n - k)) CHR ''0''
         else if 0 < n \<and> n \<le> 21 then take (nat n) ds @ ''.'' @ drop (nat n) ds
         else if - 6 < n \<and> n \<le> 0 then ''0.'' @ replicate (nat (- n)) CHR ''0'' @ ds
         else (if k = 1 then ds else take 1 ds @ ''.'' @ drop 1 ds)
              @ ''e'' @ (if 0 \<le> n - 1 then ''+'' else ''-'') @ decimal (nat \<bar>n - 1\<bar>))"

function shortestFrom :: "nat \<Rightarrow> int \<Rightarrow> rat \<Rightarrow> rat" where
  \<comment> \<open>the decimal of the fewest significant digits, \<open>k\<close> or more, that rounds to the
      positive Number \<open>x\<close> of decimal exponent \<open>n\<close>; of two such decimals the nearer to
      \<open>x\<close>, the even one at a tie. Seventeen digits always suffice for a Number.\<close>
  "shortestFrom k n x =
     (if 17 < k then x
      else (let scale = pow10 (n - int k);
                s = \<lfloor>x / scale\<rfloor>;
                lo = of_int s * scale;
                hi = lo + scale;
                okLo = (binary64 lo = Fin x);
                okHi = (binary64 hi = Fin x)
            in if okLo \<and> okHi then
                 (if x - lo < hi - x then lo
                  else if hi - x < x - lo then hi
                  else if even s then lo else hi)
               else if okLo then lo
               else if okHi then hi
               else shortestFrom (Suc k) n x))"
  by pat_completeness auto
termination
  by (relation "measure (\<lambda>(k, n, x). 18 - k)") auto

declare shortestFrom.simps [simp del]

definition shortestDecimal :: "rat \<Rightarrow> rat" where
  "shortestDecimal x =
     (let (p, q) = quotient_of x in shortestFrom 1 (decimalExponent (nat p) (nat q)) x)"

definition finiteToString :: "rat \<Rightarrow> string" where
  \<comment> \<open>Number::toString for a finite Number\<close>
  "finiteToString x =
     (if x = 0 then ''0''
      else if x < 0 then
        (let (p, q) = quotient_of (shortestDecimal (- x)) in ''-'' @ positiveToString (nat p) (nat q))
      else
        (let (p, q) = quotient_of (shortestDecimal x) in positiveToString (nat p) (nat q)))"

fun Number_toString :: "jsnum \<Rightarrow> string" where
  \<comment> \<open>a finite Number is a binary64 value, which \<open>binary64\<close> leaves as it is\<close>
  "Number_toString NaN = ''NaN''"
| "Number_toString PosInf = ''Infinity''"
| "Number_toString NegInf = ''-Infinity''"
| "Number_toString (Fin r) =
     (case binary64 r of
        Fin x \<Rightarrow> finiteToString x
      | PosInf \<Rightarrow> ''Infinity''
      | NegInf \<Rightarrow> ''-Infinity''
      | NaN \<Rightarrow> ''NaN'')"

fun ToString :: "jsval \<Rightarrow> string" where
  "ToString JUndefined = ''undefined''"
| "ToString JNull = ''null''"
| "ToString (JBool b) = (if b then ''true'' else ''false'')"
| "ToString (JNum n) = Number_toString n"
| "ToString (JStr s) = s"

fun ToBoolean :: "jsval \<Rightarrow> bool" where
  "ToBoolean JUndefined = False"
| "ToBoolean JNull = False"
| "ToBoolean (JBool b) = b"
| "ToBoolean (JNum n) = (n \<noteq> NaN \<and> n \<noteq> Fin 0)"
| "ToBoolean (JStr s) = (s \<noteq> [])"

definition js_or :: "jsval \<Rightarrow> jsval \<Rightarrow> jsval" where
  \<comment> \<open>\<^verbatim>\<open>a || b\<close>\<close>
  "js_or a b = (if ToBoolean a then a else b)"

definition parseInt :: "string \<Rightarrow> nat \<Rightarrow> int option" where
  \<comment> \<open>\<^verbatim>\<open>parseInt(str, radix)\<close>, radix 0 standing for an omitted radix; None is NaN\<close>
  "parseInt str radix =
     (let (sg, s1) = optSign (trimStart str);
          hasPrefix = ((radix = 0 \<or> radix = 16) \<and> (startsWith s1 ''0x'' \<or> startsWith s1 ''0X''));
          R = (if hasPrefix then 16 else if radix = 0 then 10 else radix);
          s2 = (if hasPrefix then drop 2 s1 else s1);
          ds = takeWhile (\<lambda>c. digitValue c < R) s2
      in if radix \<noteq> 0 \<and> (radix < 2 \<or> 36 < radix) then None
         else if ds = [] then None
         else Some (sg * int (radixValue R ds)))"

definition intToString :: "int option \<Rightarrow> string" where
  \<comment> \<open>the text of an integer-or-NaN inside a template literal\<close>
  "intToString v =
     (case v of
        None \<Rightarrow> ''NaN''
      | Some i \<Rightarrow> if i < 0 then ''-'' @ decimal (nat (- i)) else decimal (nat i))"

section \<open>The page: settings, controls, live style, effects\<close>

text \<open>
  A form control is an element with a string \<^verbatim>\<open>value\<close>, a \<^verbatim>\<open>textContent\<close> and a
  \<^verbatim>\<open>style.display\<close>; the document maps ids to elements (\<^verbatim>\<open>getElementById\<close>).
  Controls store the assigned text as it is (the sanitization that a browser applies to the
  value of a colour or range input is not modelled), and the live style is a map from
  property names to texts. \<^verbatim>\<open>settings.menuStyles\<close> is an object of primitive values, or
  absent. Reads of control values, mutations of the model, writes to
  the live style and to the panel's display, and console output are appended to a journal in
  the order in which the source performs them.
\<close>

record element =
  elem_value :: string
  elem_textContent :: string
  elem_display :: string

datatype event =
    ReadValue string
  | ReplaceModel
  | SetModel string
  | DeleteModel string
  | SetProperty string string
  | SetDisplay string string
  | ConsoleWarn string
  | ConsoleLog string

record page =
  menuStyles :: "(string \<rightharpoonup> jsval) option"
  document :: "string \<rightharpoonup> element"
  rootStyle :: "string \<rightharpoonup> string"
  events :: "event list"

text \<open>
  \<^verbatim>\<open>constants.js\<close> is not part of the sources at hand: the names it exports are
  parameters of the model.
\<close>

record constants =
  EXTENSION_NAME :: string
  ID_MENU :: string
  ID_MENU_STYLE_PANEL :: string
  DEFAULT_MENU_STYLES :: "string \<rightharpoonup> jsval"

definition emit :: "event \<Rightarrow> page \<Rightarrow> page" where
  "emit e s = s\<lparr>events := events s @ [e]\<rparr>"

definition setValue :: "string \<Rightarrow> string \<Rightarrow> page \<Rightarrow> page" where
  \<comment> \<open>\<^verbatim>\<open>element.value = v\<close> on the element with this id\<close>
  "setValue i v s =
     (case document s i of
        Some e \<Rightarrow> s\<lparr>document := (document s)(i \<mapsto> e\<lparr>elem_value := v\<rparr>)\<rparr>
      | None \<Rightarrow> s)"

definition json_copy :: "(string \<rightharpoonup> jsval) \<Rightarrow> (string \<rightharpoonup> jsval)" where
  \<comment> \<open>\<^verbatim>\<open>JSON.parse(JSON.stringify(obj))\<close> on an object of primitives: undefined properties
      are dropped and non-finite numbers become null\<close>
  "json_copy m =
     (\<lambda>k. case m k of
            None \<Rightarrow> None
          | Some JUndefined \<Rightarrow> None
          | Some (JNum n) \<Rightarrow> Some (case n of Fin r \<Rightarrow> JNum n | _ \<Rightarrow> JNull)
          | Some v \<Rightarrow> Some v)"

section \<open>ColorCodec\<close>

definition testHex6 :: "string \<Rightarrow> bool" where
  \<comment> \<open>\<^verbatim>\<open>/^#[0-9A-F]{6}$/i.test(s)\<close>\<close>
  "testHex6 s =
     (case s of [] \<Rightarrow> False | c # ds \<Rightarrow> c = CHR ''#'' \<and> length ds = 6 \<and> list_all isHexDigit ds)"

definition validOpacity :: "jsval \<Rightarrow> jsval" where
  \<comment> \<open>the constant \<^verbatim>\<open>validOpacity\<close> of \<^verbatim>\<open>hexToRgba\<close>\<close>
  "validOpacity opacity =
     (if opacity \<noteq> JNull \<and> opacity \<noteq> JUndefined
         \<and> js_ge opacity (Fin 0) \<and> js_le opacity (Fin 1)
      then opacity else JNum (binary64 (7 / 10)))"

definition hexToRgba :: "jsval \<Rightarrow> jsval \<Rightarrow> page \<Rightarrow> string \<times> page" where
  \<comment> \<open>In the branch where the test succeeds \<open>hex\<close> is a string: the text of no other
      primitive starts with \<^verbatim>\<open>#\<close>.\<close>
  "hexToRgba hex opacity s =
     (let invalid = (\<not> ToBoolean hex \<or> \<not> testHex6 (ToString hex));
          hex1 = (if invalid then ''#3c3c3c'' else ToString hex);
          s1 = (if invalid
                then emit (ConsoleWarn (''Invalid hex color provided: '' @ hex1 @ ''. Using default.'')) s
                else s);
          hex2 = replaceFirst ''#'' [] hex1;
          r = parseInt (substring hex2 0 2) 16;
          g = parseInt (substring hex2 2 4) 16;
          b = parseInt (substring hex2 4 6) 16
      in (''rgba('' @ intToString r @ '', '' @ intToString g @ '', '' @ intToString b @ '', ''
            @ ToString (validOpacity opacity) @ '')'', s1))"

text \<open>
  The pattern \<^verbatim>\<open>/rgba?\((\d+),\s*(\d+),\s*(\d+)(?:,\s*([0-9.]+))?\)/\<close>. Every quantifier
  of the pattern is followed by a character outside the class it repeats, so backtracking
  never finds a match that the greedy scan misses, and a match at a given position is
  decided by one left-to-right scan. \<^verbatim>\<open>String.prototype.match\<close> returns the leftmost match.
\<close>

definition isAlphaChar :: "char \<Rightarrow> bool" where
  \<comment> \<open>the class \<^verbatim>\<open>[0-9.]\<close>\<close>
  "isAlphaChar c = (isDigit c \<or> c = CHR ''.'')"

definition scanChannel :: "string \<Rightarrow> (string \<times> string) option" where
  \<comment> \<open>\<^verbatim>\<open>(\d+),\s*\<close>: the digits and the text after the separator\<close>
  "scanChannel s =
     (let ds = takeWhile isDigit s in
      if ds = [] then None
      else case dropWhile isDigit s of
             c # rest \<Rightarrow> if c = CHR '','' then Some (ds, dropWhile isWhiteSpace rest) else None
           | [] \<Rightarrow> None)"

definition scanTail :: "string \<Rightarrow> (string \<times> string option) option" where
  \<comment> \<open>\<^verbatim>\<open>(\d+)(?:,\s*([0-9.]+))?\)\<close>\<close>
  "scanTail s =
     (let ds = takeWhile isDigit s in
      if ds = [] then None
      else case dropWhile isDigit s of
             c # rest \<Rightarrow>
               if c = CHR '')'' then Some (ds, None)
               else if c = CHR '','' then
                 (let t = dropWhile isWhiteSpace rest; a = takeWhile isAlphaChar t in
                  if a \<noteq> [] \<and> startsWith (dropWhile isAlphaChar t) '')'' then Some (ds, Some a)
                  else None)
               else None
           | [] \<Rightarrow> None)"

definition rgbaMatchAt :: "string \<Rightarrow> (string \<times> string \<times> string \<times> string option) option" where
  "rgbaMatchAt s =
     (case stripPrefix ''rgb'' s of
        None \<Rightarrow> None
      | Some s1 \<Rightarrow>
          (case (if startsWith s1 ''a'' then tl s1 else s1) of
             c # s2 \<Rightarrow>
               if c = CHR ''('' then
                 (case scanChannel s2 of
                    None \<Rightarrow> None
                  | Some (m1, s3) \<Rightarrow>
                      (case scanChannel s3 of
                         None \<Rightarrow> None
                       | Some (m2, s4) \<Rightarrow>
                           (case scanTail s4 of
                              None \<Rightarrow> None
                            | Some (m3, m4) \<Rightarrow> Some (m1, m2, m3, m4))))
               else None
           | [] \<Rightarrow> None))"

fun rgbaMatch :: "string \<Rightarrow> (string \<times> string \<times> string \<times> string option) option" where
  "rgbaMatch [] = None"
| "rgbaMatch (c # cs) =
     (case rgbaMatchAt (c # cs) of Some m \<Rightarrow> Some m | None \<Rightarrow> rgbaMatch cs)"

definition hexChannel :: "int option \<Rightarrow> string" where
  \<comment> \<open>\<^verbatim>\<open>Math.max(0, Math.min(255, r)).toString(16).padStart(2, '0')\<close>\<close>
  "hexChannel v =
     (case v of
        None \<Rightarrow> ''NaN''
      | Some r \<Rightarrow> padStart2 (toString16 (nat (max 0 (min 255 r)))))"

definition rgbaToHex :: "jsval \<Rightarrow> string" where
  "rgbaToHex rgba =
     (case rgba of
        JStr s \<Rightarrow>
          if s = [] then ''#000000''
          else (case rgbaMatch s of
                  None \<Rightarrow> if testHex6 s then toUpperCase s else ''#000000''
                | Some (m1, m2, m3, m4) \<Rightarrow>
                    (let r = parseInt m1 0; g = parseInt m2 0; b = parseInt m3 0;
                         hexR = hexChannel r; hexG = hexChannel g; hexB = hexChannel b
                     in toUpperCase (''#'' @ hexR @ hexG @ hexB)))
      | _ \<Rightarrow> ''#000000'')"

definition getOpacityFromRgba :: "jsval \<Rightarrow> jsnum" where
  "getOpacityFromRgba rgba =
     (case rgba of
        JStr s \<Rightarrow>
          if s = [] then Fin 1
          else (case rgbaMatch s of
                  None \<Rightarrow> Fin 1
                | Some (m1, m2, m3, None) \<Rightarrow> Fin 1
                | Some (m1, m2, m3, Some m4) \<Rightarrow>
                    (let opacity = parseFloat m4 in Math_max (Fin 0) (Math_min (Fin 1) opacity)))
      | _ \<Rightarrow> Fin 1)"

section \<open>LiveStyleApplier and panel visibility\<close>

definition getProp :: "(string \<rightharpoonup> jsval) \<Rightarrow> string \<Rightarrow> jsval" where
  \<comment> \<open>reading a property of an object: undefined when the key is absent\<close>
  "getProp obj k = (case obj k of Some v \<Rightarrow> v | None \<Rightarrow> JUndefined)"

definition setProperty :: "string \<Rightarrow> jsval \<Rightarrow> page \<Rightarrow> page" where
  \<comment> \<open>\<^verbatim>\<open>document.documentElement.style.setProperty(name, v)\<close>\<close>
  "setProperty name v s =
     emit (SetProperty name (ToString v)) (s\<lparr>rootStyle := (rootStyle s)(name \<mapsto> ToString v)\<rparr>)"

definition updateMenuStylesUI :: "constants \<Rightarrow> page \<Rightarrow> page" where
  "updateMenuStylesUI C s =
     (let styles = (case menuStyles s of Some m \<Rightarrow> m | None \<Rightarrow> DEFAULT_MENU_STYLES C) in
      case document s (ID_MENU C) of
        None \<Rightarrow> s
      | Some menu \<Rightarrow>
          (let s1 = setProperty ''--qr-item-bg-color''
                      (js_or (getProp styles ''itemBgColor'') (JStr ''rgba(60, 60, 60, 0.7)'')) s;
               s2 = setProperty ''--qr-item-text-color''
                      (js_or (getProp styles ''itemTextColor'') (JStr ''white'')) s1;
               s3 = setProperty ''--qr-title-color''
                      (js_or (getProp styles ''titleColor'') (JStr ''#ccc'')) s2;
               s4 = setProperty ''--qr-title-border-color''
                      (js_or (getProp styles ''titleBorderColor'') (JStr ''#444'')) s3;
               s5 = setProperty ''--qr-empty-text-color''
                      (js_or (getProp styles ''emptyTextColor'') (JStr ''#666'')) s4;
               s6 = setProperty ''--qr-menu-bg-color''
                      (js_or (getProp styles ''menuBgColor'') (JStr ''rgba(0, 0, 0, 0.85)'')) s5
           in setProperty ''--qr-menu-border-color''
                (js_or (getProp styles ''menuBorderColor'') (JStr ''#555'')) s6))"

definition closeMenuStylePanel :: "constants \<Rightarrow> page \<Rightarrow> page" where
  "closeMenuStylePanel C s =
     (case document s (ID_MENU_STYLE_PANEL C) of
        Some stylePanel \<Rightarrow>
          emit (SetDisplay (ID_MENU_STYLE_PANEL C) ''none'')
            (s\<lparr>document := (document s)(ID_MENU_STYLE_PANEL C \<mapsto> stylePanel\<lparr>elem_display := ''none''\<rparr>)\<rparr>)
      | None \<Rightarrow> s)"

section \<open>Applying the panel to the model\<close>

definition safeGetValue :: "string \<Rightarrow> jsval \<Rightarrow> page \<Rightarrow> jsval \<times> page" where
  "safeGetValue i defaultValue s =
     (case document s i of
        Some e \<Rightarrow> (JStr (elem_value e), emit (ReadValue i) s)
      | None \<Rightarrow> (defaultValue, s))"

definition getColorValue :: "string \<Rightarrow> page \<Rightarrow> jsval \<times> page" where
  "getColorValue pickerId s =
     (case document s (pickerId @ ''-text'') of
        Some textInput \<Rightarrow>
          (let s1 = emit (ReadValue (pickerId @ ''-text'')) s in
           if testHex6 (elem_value textInput)
           then (JStr (elem_value textInput), emit (ReadValue (pickerId @ ''-text'')) s1)
           else safeGetValue pickerId JNull s1)
      | None \<Rightarrow> safeGetValue pickerId JNull s)"

definition setStyle :: "string \<Rightarrow> jsval \<Rightarrow> page \<Rightarrow> page" where
  \<comment> \<open>\<^verbatim>\<open>settings.menuStyles[k] = v\<close>; the object exists wherever the source assigns\<close>
  "setStyle k v s =
     emit (SetModel k) (s\<lparr>menuStyles := map_option (\<lambda>m. m(k \<mapsto> v)) (menuStyles s)\<rparr>)"

definition deleteStyle :: "string \<Rightarrow> page \<Rightarrow> page" where
  \<comment> \<open>\<^verbatim>\<open>delete settings.menuStyles[k]\<close>\<close>
  "deleteStyle k s =
     emit (DeleteModel k) (s\<lparr>menuStyles := map_option (\<lambda>m. m(k := None)) (menuStyles s)\<rparr>)"

definition replaceStyles :: "(string \<rightharpoonup> jsval) \<Rightarrow> page \<Rightarrow> page" where
  \<comment> \<open>\<^verbatim>\<open>settings.menuStyles = obj\<close>\<close>
  "replaceStyles obj s = emit ReplaceModel (s\<lparr>menuStyles := Some obj\<rparr>)"

definition applyMenuStyles :: "constants \<Rightarrow> page \<Rightarrow> page" where
  "applyMenuStyles C s0 =
     (let s1 = (if menuStyles s0 = None
                then replaceStyles (json_copy (DEFAULT_MENU_STYLES C)) s0 else s0);
          (itemBgColorHex, s2) = getColorValue ''qr-item-bgcolor-picker'' s1;
          (itemOpacity, s3) = safeGetValue ''qr-item-opacity'' (JNum (binary64 (7 / 10))) s2;
          (itemBgColor, s4) = hexToRgba itemBgColorHex itemOpacity s3;
          s5 = setStyle ''itemBgColor'' (JStr itemBgColor) s4;
          (itemTextColor, s6) = getColorValue ''qr-item-color-picker'' s5;
          s7 = setStyle ''itemTextColor'' (js_or itemTextColor (JStr ''#ffffff'')) s6;
          (titleColor, s8) = getColorValue ''qr-title-color-picker'' s7;
          s9 = setStyle ''titleColor'' (js_or titleColor (JStr ''#cccccc'')) s8;
          (titleBorderColor, s10) = getColorValue ''qr-title-border-picker'' s9;
          s11 = setStyle ''titleBorderColor'' (js_or titleBorderColor (JStr ''#444444'')) s10;
          (emptyTextColor, s12) = getColorValue ''qr-empty-color-picker'' s11;
          s13 = setStyle ''emptyTextColor'' (js_or emptyTextColor (JStr ''#666666'')) s12;
          (menuBgColorHex, s14) = getColorValue ''qr-menu-bgcolor-picker'' s13;
          (menuOpacity, s15) = safeGetValue ''qr-menu-opacity'' (JNum (binary64 (85 / 100))) s14;
          (menuBgColor, s16) = hexToRgba menuBgColorHex menuOpacity s15;
          s17 = setStyle ''menuBgColor'' (JStr menuBgColor) s16;
          (menuBorderColor, s18) = getColorValue ''qr-menu-border-picker'' s17;
          s19 = setStyle ''menuBorderColor'' (js_or menuBorderColor (JStr ''#555555'')) s18;
          s20 = deleteStyle ''followTheme'' s19;
          s21 = updateMenuStylesUI C s20;
          s22 = closeMenuStylePanel C s21
      in emit (ConsoleLog (''['' @ EXTENSION_NAME C
                 @ ''] Menu styles applied. Remember to save settings.'')) s22)"

section \<open>Loading the model into the panel, reset\<close>

text \<open>
  \<^verbatim>\<open>loadMenuStylesIntoPanel\<close> calls \<^verbatim>\<open>toUpperCase\<close> on the value of a plain slot; on a
  value that is not a string the call raises a TypeError, and the effects made until then
  stay.
\<close>

datatype outcome = Returned page | Thrown string page

definition andThen :: "outcome \<Rightarrow> (page \<Rightarrow> outcome) \<Rightarrow> outcome" where
  "andThen r f = (case r of Returned s \<Rightarrow> f s | Thrown msg s \<Rightarrow> Thrown msg s)"

definition safeSetValue :: "string \<Rightarrow> jsval \<Rightarrow> page \<Rightarrow> page" where
  \<comment> \<open>the control keeps the text of the assigned value\<close>
  "safeSetValue i v s = setValue i (ToString v) s"

definition safeSetText :: "string \<Rightarrow> jsval \<Rightarrow> page \<Rightarrow> page" where
  "safeSetText i v s =
     (case document s i of
        Some e \<Rightarrow> s\<lparr>document := (document s)(i \<mapsto> e\<lparr>elem_textContent := ToString v\<rparr>)\<rparr>
      | None \<Rightarrow> s)"

definition isTruthyString :: "jsval \<Rightarrow> bool" where
  \<comment> \<open>\<^verbatim>\<open>v && typeof v === 'string'\<close>\<close>
  "isTruthyString v = (case v of JStr t \<Rightarrow> t \<noteq> [] | _ \<Rightarrow> False)"

definition loadPlainColor :: "string \<Rightarrow> string \<Rightarrow> jsval \<Rightarrow> page \<Rightarrow> outcome" where
  \<comment> \<open>the two statements \<^verbatim>\<open>safeSetValue(picker, c); safeSetValue(text, c.toUpperCase())\<close>\<close>
  "loadPlainColor pickerId textId c s =
     (let s1 = safeSetValue pickerId c s in
      case c of
        JStr t \<Rightarrow> Returned (safeSetValue textId (JStr (toUpperCase t)) s1)
      | _ \<Rightarrow> Thrown ''TypeError: toUpperCase is not a function'' s1)"

definition loadMenuStylesIntoPanel :: "constants \<Rightarrow> page \<Rightarrow> outcome" where
  "loadMenuStylesIntoPanel C s0 =
     (let styles = (case menuStyles s0 of
                      Some m \<Rightarrow> m
                    | None \<Rightarrow> json_copy (DEFAULT_MENU_STYLES C));
          itemBgColorHex = (if isTruthyString (getProp styles ''itemBgColor'')
                            then rgbaToHex (getProp styles ''itemBgColor'') else ''#3c3c3c'');
          s1 = safeSetValue ''qr-item-bgcolor-picker'' (JStr itemBgColorHex) s0;
          s2 = safeSetValue ''qr-item-bgcolor-text'' (JStr (toUpperCase itemBgColorHex)) s1;
          itemOpacity = (if isTruthyString (getProp styles ''itemBgColor'')
                         then getOpacityFromRgba (getProp styles ''itemBgColor'') else binary64 (7 / 10));
          s3 = safeSetValue ''qr-item-opacity'' (JNum itemOpacity) s2;
          s4 = safeSetText ''qr-item-opacity-value'' (JNum itemOpacity) s3
      in andThen (loadPlainColor ''qr-item-color-picker'' ''qr-item-color-text''
                    (js_or (getProp styles ''itemTextColor'') (JStr ''#ffffff'')) s4) (\<lambda>s5.
         andThen (loadPlainColor ''qr-title-color-picker'' ''qr-title-color-text''
                    (js_or (getProp styles ''titleColor'') (JStr ''#cccccc'')) s5) (\<lambda>s6.
         andThen (loadPlainColor ''qr-title-border-picker'' ''qr-title-border-text''
                    (js_or (getProp styles ''titleBorderColor'') (JStr ''#444444'')) s6) (\<lambda>s7.
         andThen (loadPlainColor ''qr-empty-color-picker'' ''qr-empty-color-text''
                    (js_or (getProp styles ''emptyTextColor'') (JStr ''#666666'')) s7) (\<lambda>s8.
         (let menuBgColorHex = (if isTruthyString (getProp styles ''menuBgColor'')
                                then rgbaToHex (getProp styles ''menuBgColor'') else ''#000000'');
              s9 = safeSetValue ''qr-menu-bgcolor-picker'' (JStr menuBgColorHex) s8;
              s10 = safeSetValue ''qr-menu-bgcolor-text'' (JStr (toUpperCase menuBgColorHex)) s9;
              menuOpacity = (if isTruthyString (getProp styles ''menuBgColor'')
                             then getOpacityFromRgba (getProp styles ''menuBgColor'')
                             else binary64 (85 / 100));
              s11 = safeSetValue ''qr-menu-opacity'' (JNum menuOpacity) s10;
              s12 = safeSetText ''qr-menu-opacity-value'' (JNum menuOpacity) s11
          in loadPlainColor ''qr-menu-border-picker'' ''qr-menu-border-text''
               (js_or (getProp styles ''menuBorderColor'') (JStr ''#555555'')) s12))))))"

definition resetMenuStyles :: "constants \<Rightarrow> page \<Rightarrow> outcome" where
  "resetMenuStyles C s0 =
     (let s1 = replaceStyles (json_copy (DEFAULT_MENU_STYLES C)) s0 in
      andThen (loadMenuStylesIntoPanel C s1) (\<lambda>s2.
        Returned (emit (ConsoleLog (''['' @ EXTENSION_NAME C
                    @ ''] Menu styles reset to default. Remember to save settings.''))
                   (updateMenuStylesUI C s2))))"

definition pageOf :: "outcome \<Rightarrow> page" where
  \<comment> \<open>the page an invocation leaves behind, whether it returned or raised\<close>
  "pageOf r = (case r of Returned s \<Rightarrow> s | Thrown msg s \<Rightarrow> s)"

section \<open>FieldSync\<close>

text \<open>
  \<^verbatim>\<open>setupColorPickerSync\<close> pairs each picker with the text control whose id replaces
  \<^verbatim>\<open>-picker\<close> by \<^verbatim>\<open>-text\<close>, seeds the text control and registers three listeners.
  A listener is a function of the page, for the pair of a given picker id.
\<close>

definition testHex6Opt :: "string \<Rightarrow> bool" where
  \<comment> \<open>\<^verbatim>\<open>/^#?([0-9A-F]{6})$/i.test(s)\<close>\<close>
  "testHex6Opt s =
     (let ds = (if startsWith s ''#'' then tl s else s) in length ds = 6 \<and> list_all isHexDigit ds)"

definition textIdOf :: "string \<Rightarrow> string" where
  "textIdOf pickerId = replaceFirst ''-picker'' ''-text'' pickerId"

definition syncSeed :: "string \<Rightarrow> page \<Rightarrow> page" where
  \<comment> \<open>\<^verbatim>\<open>textInput.value = picker.value.toUpperCase()\<close>; also the picker's input listener\<close>
  "syncSeed pickerId s =
     (case (document s pickerId, document s (textIdOf pickerId)) of
        (Some picker, Some textInput) \<Rightarrow>
          setValue (textIdOf pickerId) (toUpperCase (elem_value picker)) s
      | _ \<Rightarrow> s)"

definition onTextInput :: "string \<Rightarrow> page \<Rightarrow> page" where
  \<comment> \<open>the text control's \<^verbatim>\<open>input\<close> listener\<close>
  "onTextInput pickerId s =
     (case (document s pickerId, document s (textIdOf pickerId)) of
        (Some picker, Some textInput) \<Rightarrow>
          (let v = trim (elem_value textInput) in
           if testHex6Opt v then
             (let color = (if startsWith v ''#'' then v else ''#'' @ v);
                  s1 = setValue pickerId color s
              in setValue (textIdOf pickerId) (toUpperCase color) s1)
           else s)
      | _ \<Rightarrow> s)"

definition onTextChange :: "string \<Rightarrow> page \<Rightarrow> page" where
  \<comment> \<open>the text control's \<^verbatim>\<open>change\<close> listener\<close>
  "onTextChange pickerId s =
     (case (document s pickerId, document s (textIdOf pickerId)) of
        (Some picker, Some textInput) \<Rightarrow>
          (let v = trim (elem_value textInput) in
           if testHex6Opt v then
             (let color = (if startsWith v ''#'' then v else ''#'' @ v);
                  s1 = setValue pickerId color s
              in setValue (textIdOf pickerId) (toUpperCase color) s1)
           else setValue (textIdOf pickerId) (toUpperCase (elem_value picker)) s)
      | _ \<Rightarrow> s)"

definition typeText :: "string \<Rightarrow> string \<Rightarrow> page \<Rightarrow> page" where
  \<comment> \<open>the user's edit: the control with this id now holds \<open>v\<close>\<close>
  "typeText i v s = setValue i v s"

section \<open>Notions used by the properties\<close>

definition normalizeHex :: "string \<Rightarrow> string" where
  \<comment> \<open>trimming and adding the \<^verbatim>\<open>#\<close>, as the text listeners do before they uppercase\<close>
  "normalizeHex s = (let v = trim s in if startsWith v ''#'' then v else ''#'' @ v)"

definition hasStyleKey :: "page \<Rightarrow> string \<Rightarrow> bool" where
  "hasStyleKey s k = (case menuStyles s of Some m \<Rightarrow> m k \<noteq> None | None \<Rightarrow> False)"

definition styleOf :: "page \<Rightarrow> string \<Rightarrow> jsval option" where
  "styleOf s k = (case menuStyles s of Some m \<Rightarrow> m k | None \<Rightarrow> None)"

definition valueOf :: "page \<Rightarrow> string \<Rightarrow> string option" where
  "valueOf s i = map_option elem_value (document s i)"

definition control :: "string \<Rightarrow> element" where
  "control v = \<lparr>elem_value = v, elem_textContent = [], elem_display = []\<rparr>"

definition pageOfDocument :: "(string \<rightharpoonup> element) \<Rightarrow> page" where
  \<comment> \<open>a fresh page: this document, no stored styles, no live style, an empty journal\<close>
  "pageOfDocument D = \<lparr>menuStyles = None, document = D, rootStyle = Map.empty, events = []\<rparr>"

definition pageOfControls :: "(string \<times> element) list \<Rightarrow> page" where
  "pageOfControls cs = pageOfDocument (map_of cs)"

definition emits :: "event list \<Rightarrow> page \<Rightarrow> page" where
  "emits es s = s\<lparr>events := events s @ es\<rparr>"

definition newEvents :: "page \<Rightarrow> page \<Rightarrow> event list" where
  \<comment> \<open>what an invocation that started in \<open>s\<close> and ended in \<open>s'\<close> added to the journal\<close>
  "newEvents s s' = drop (length (events s)) (events s')"

text \<open>
  What the readers return, and what they add to the journal, depends on the document alone;
  the text and the warnings of \<^verbatim>\<open>hexToRgba\<close> depend on its arguments alone.
\<close>

definition valueIn :: "(string \<rightharpoonup> element) \<Rightarrow> string \<Rightarrow> jsval \<Rightarrow> jsval" where
  "valueIn D i d = fst (safeGetValue i d (pageOfDocument D))"

definition valueReads :: "(string \<rightharpoonup> element) \<Rightarrow> string \<Rightarrow> event list" where
  "valueReads D i = events (snd (safeGetValue i JNull (pageOfDocument D)))"

definition colorValueIn :: "(string \<rightharpoonup> element) \<Rightarrow> string \<Rightarrow> jsval" where
  "colorValueIn D pickerId = fst (getColorValue pickerId (pageOfDocument D))"

definition colorReads :: "(string \<rightharpoonup> element) \<Rightarrow> string \<Rightarrow> event list" where
  "colorReads D pickerId = events (snd (getColorValue pickerId (pageOfDocument D)))"

definition rgbaText :: "jsval \<Rightarrow> jsval \<Rightarrow> string" where
  "rgbaText hex opacity = fst (hexToRgba hex opacity (pageOfDocument Map.empty))"

definition rgbaWarns :: "jsval \<Rightarrow> event list" where
  "rgbaWarns hex = events (snd (hexToRgba hex JNull (pageOfDocument Map.empty)))"

definition initialStyles :: "constants \<Rightarrow> page \<Rightarrow> (string \<rightharpoonup> jsval)" where
  \<comment> \<open>the object that \<^verbatim>\<open>applyMenuStyles\<close> writes into\<close>
  "initialStyles C s =
     (case menuStyles s of Some m \<Rightarrow> m | None \<Rightarrow> json_copy (DEFAULT_MENU_STYLES C))"

definition liveStyleAfter ::
  "constants \<Rightarrow> (string \<rightharpoonup> jsval) option \<Rightarrow> (string \<rightharpoonup> element) \<Rightarrow> (string \<rightharpoonup> string)
     \<Rightarrow> (string \<rightharpoonup> string)" where
  \<comment> \<open>the live style that \<^verbatim>\<open>updateMenuStylesUI\<close> leaves, from what it reads\<close>
  "liveStyleAfter C m D R =
     rootStyle (updateMenuStylesUI C \<lparr>menuStyles = m, document = D, rootStyle = R, events = []\<rparr>)"

definition renderEvents ::
  "constants \<Rightarrow> (string \<rightharpoonup> jsval) option \<Rightarrow> (string \<rightharpoonup> element) \<Rightarrow> event list" where
  "renderEvents C m D =
     events (updateMenuStylesUI C \<lparr>menuStyles = m, document = D, rootStyle = Map.empty, events = []\<rparr>)"

definition closeEvents :: "constants \<Rightarrow> (string \<rightharpoonup> element) \<Rightarrow> event list" where
  "closeEvents C D = events (closeMenuStylePanel C (pageOfDocument D))"

definition exampleConstants :: constants where
  \<comment> \<open>values for the parameters, used where a theorem is evaluated\<close>
  "exampleConstants =
     \<lparr>EXTENSION_NAME = ''quick-reply-menu'',
      ID_MENU = ''quick-reply-menu'',
      ID_MENU_STYLE_PANEL = ''quick-reply-menu-style-panel'',
      DEFAULT_MENU_STYLES = map_of
        [(''itemBgColor'', JStr ''rgba(60, 60, 60, 0.7)''),
         (''itemTextColor'', JStr ''#ffffff''),
         (''titleColor'', JStr ''#cccccc''),
         (''titleBorderColor'', JStr ''#444444''),
         (''emptyTextColor'', JStr ''#666666''),
         (''menuBgColor'', JStr ''rgba(0, 0, 0, 0.85)''),
         (''menuBorderColor'', JStr ''#555555'')]\<rparr>"

definition legacyPage :: page where
  \<comment> \<open>a page without controls whose stored styles carry the legacy key\<close>
  "legacyPage = (pageOfControls [])\<lparr>menuStyles := Some [''followTheme'' \<mapsto> JBool True]\<rparr>"

definition examplePanel :: page where
  \<comment> \<open>a panel with the item-background pair, the item-opacity slider at 0.9, the menu root
      and the panel container of \<open>exampleConstants\<close>\<close>
  "examplePanel =
     pageOfControls
       [(''qr-item-bgcolor-picker'', control ''#000000''),
        (''qr-item-bgcolor-text'', control ''#000000''),
        (''qr-item-opacity'', control ''0.9''),
        (''quick-reply-menu'', control []),
        (''quick-reply-menu-style-panel'', control [])]"




text \<open>
  The order of effects inside one invocation is read off the journal. \<open>allBefore P Q es\<close>:
  in \<open>es\<close>, no event that satisfies \<open>P\<close> comes after an event that satisfies \<open>Q\<close>.
\<close>

fun isRead :: "event \<Rightarrow> bool" where
  "isRead (ReadValue i) = True"
| "isRead _ = False"

fun isWrite :: "event \<Rightarrow> bool" where
  "isWrite ReplaceModel = True"
| "isWrite (SetModel k) = True"
| "isWrite (DeleteModel k) = True"
| "isWrite _ = False"

fun isRender :: "event \<Rightarrow> bool" where
  "isRender (SetProperty n v) = True"
| "isRender _ = False"

fun isClose :: "event \<Rightarrow> bool" where
  "isClose (SetDisplay i v) = True"
| "isClose _ = False"

fun allBefore :: "(event \<Rightarrow> bool) \<Rightarrow> (event \<Rightarrow> bool) \<Rightarrow> event list \<Rightarrow> bool" where
  "allBefore P Q [] = True"
| "allBefore P Q (e # es) = ((Q e \<longrightarrow> \<not> list_ex P es) \<and> allBefore P Q es)"

definition slotControls :: "(string \<times> string list) list" where
  \<comment> \<open>for each slot that \<^verbatim>\<open>applyMenuStyles\<close> assigns, the ids whose values it reads for it\<close>
  "slotControls =
     [(''itemBgColor'',
         [''qr-item-bgcolor-picker-text'', ''qr-item-bgcolor-picker'', ''qr-item-opacity'']),
      (''itemTextColor'', [''qr-item-color-picker-text'', ''qr-item-color-picker'']),
      (''titleColor'', [''qr-title-color-picker-text'', ''qr-title-color-picker'']),
      (''titleBorderColor'', [''qr-title-border-picker-text'', ''qr-title-border-picker'']),
      (''emptyTextColor'', [''qr-empty-color-picker-text'', ''qr-empty-color-picker'']),
      (''menuBgColor'',
         [''qr-menu-bgcolor-picker-text'', ''qr-menu-bgcolor-picker'', ''qr-menu-opacity'']),
      (''menuBorderColor'', [''qr-menu-border-picker-text'', ''qr-menu-border-picker''])]"

definition readsControlOf :: "string \<Rightarrow> event \<Rightarrow> bool" where
  "readsControlOf k e =
     (case e of
        ReadValue i \<Rightarrow> (case map_of slotControls k of Some cs \<Rightarrow> i \<in> set cs | None \<Rightarrow> False)
      | _ \<Rightarrow> False)"

definition readsSomeControl :: "event \<Rightarrow> bool" where
  "readsSomeControl e = list_ex (\<lambda>k. readsControlOf k e) (map fst slotControls)"

definition writesSlot :: "string \<Rightarrow> event \<Rightarrow> bool" where
  "writesSlot k e = (e = SetModel k)"

definition panelHidden :: "constants \<Rightarrow> page \<Rightarrow> bool" where
  \<comment> \<open>the panel container, when the document has it, is not displayed\<close>
  "panelHidden C s =
     (case document s (ID_MENU_STYLE_PANEL C) of
        Some e \<Rightarrow> elem_display e = ''none''
      | None \<Rightarrow> True)"

definition applyTrace :: "constants \<Rightarrow> page \<Rightarrow> event list" where
  \<comment> \<open>what one invocation of \<^verbatim>\<open>applyMenuStyles\<close> adds to the journal, statement by statement\<close>
  "applyTrace C s =
     (let D = document s in
      (if menuStyles s = None then [ReplaceModel] else [])
      @ colorReads D ''qr-item-bgcolor-picker'' @ valueReads D ''qr-item-opacity''
      @ rgbaWarns (colorValueIn D ''qr-item-bgcolor-picker'') @ [SetModel ''itemBgColor'']
      @ colorReads D ''qr-item-color-picker'' @ [SetModel ''itemTextColor'']
      @ colorReads D ''qr-title-color-picker'' @ [SetModel ''titleColor'']
      @ colorReads D ''qr-title-border-picker'' @ [SetModel ''titleBorderColor'']
      @ colorReads D ''qr-empty-color-picker'' @ [SetModel ''emptyTextColor'']
      @ colorReads D ''qr-menu-bgcolor-picker'' @ valueReads D ''qr-menu-opacity''
      @ rgbaWarns (colorValueIn D ''qr-menu-bgcolor-picker'') @ [SetModel ''menuBgColor'']
      @ colorReads D ''qr-menu-border-picker'' @ [SetModel ''menuBorderColor'']
      @ [DeleteModel ''followTheme'']
      @ renderEvents C (menuStyles (applyMenuStyles C s)) D
      @ closeEvents C D
      @ [ConsoleLog (''['' @ EXTENSION_NAME C
           @ ''] Menu styles applied. Remember to save settings.'')])"

definition twoPickerPage :: page where
  \<comment> \<open>stored styles exist; the document has the pickers of the first two slots and the panel
      container, and no menu root\<close>
  "twoPickerPage =
     (pageOfControls
        [(''qr-item-bgcolor-picker'', control ''#112233''),
         (''qr-item-color-picker'', control ''#ffffff''),
         (''quick-reply-menu-style-panel'', control [])])\<lparr>menuStyles := Some Map.empty\<rparr>"

section \<open>Helper lemmas\<close>

lemma rgbaMatch_without_r: "CHR ''r'' \<notin> set s \<Longrightarrow> rgbaMatch s = None"
  by (induction s) (auto simp: rgbaMatchAt_def)

lemma isHexDigit_r: "\<not> isHexDigit CHR ''r''"
  by (simp add: isHexDigit_def)

lemma testHex6_Cons:
  "testHex6 s \<Longrightarrow> \<exists>ds. s = CHR ''#'' # ds \<and> length ds = 6 \<and> list_all isHexDigit ds"
  by (cases s) (simp_all add: testHex6_def)

lemma testHex6_without_r:
  assumes "testHex6 s"
  shows "CHR ''r'' \<notin> set s"
proof -
  from assms obtain ds where s: "s = CHR ''#'' # ds" and h: "list_all isHexDigit ds"
    using testHex6_Cons by blast
  from h have "CHR ''r'' \<notin> set ds"
    using isHexDigit_r by (auto simp: list_all_iff)
  with s show ?thesis by simp
qed

lemma testHex6_nonempty: "testHex6 s \<Longrightarrow> s \<noteq> []"
  by (auto simp: testHex6_def)

section \<open>Decoding a bare hex colour\<close>

text \<open>
  Claim C3, as the code has it: on a string that matches \<^verbatim>\<open>^#[0-9A-F]{6}$\<close> without regard
  to case, \<^verbatim>\<open>rgbaToHex\<close> returns the string in upper case; it returns the string itself
  when no character of it has a different upper-case form.
\<close>

theorem rgbaToHex_bare_hex_uppercased:
  "testHex6 s \<Longrightarrow>
     rgbaToHex (JStr s) = toUpperCase s
     \<and> ((\<forall>c \<in> set s. upperChar c = c) \<longrightarrow> rgbaToHex (JStr s) = s)"
  by (simp add: rgbaToHex_def rgbaMatch_without_r testHex6_without_r testHex6_nonempty
        toUpperCase_def map_idI)

text \<open>The theorem at \<^verbatim>\<open>#FF00FF\<close>, which is already in upper case.\<close>

theorem rgbaToHex_bare_hex_uppercased_witness:
  "testHex6 ''#FF00FF'' \<and> map upperChar ''#FF00FF'' = ''#FF00FF''
   \<and> rgbaToHex (JStr ''#FF00FF'') = ''#FF00FF''"
  using rgbaToHex_bare_hex_uppercased [of "''#FF00FF''"]
  by (simp add: testHex6_def isHexDigit_def upperChar_def toUpperCase_def)

text \<open>
  C3 as stated, "returns it unchanged", fails on lower-case digits: \<^verbatim>\<open>#ff00ff\<close> comes
  back as \<^verbatim>\<open>#FF00FF\<close>.
\<close>

theorem rgbaToHex_bare_hex_counterexample:
  "\<not> (\<forall>s. testHex6 s \<longrightarrow> rgbaToHex (JStr s) = s)"
proof
  assume "\<forall>s. testHex6 s \<longrightarrow> rgbaToHex (JStr s) = s"
  moreover have "testHex6 ''#ff00ff''"
    by (simp add: testHex6_def isHexDigit_def)
  ultimately have "rgbaToHex (JStr ''#ff00ff'') = ''#ff00ff''"
    by blast
  moreover have "rgbaToHex (JStr ''#ff00ff'') = ''#FF00FF''"
    by (simp add: rgbaToHex_def rgbaMatchAt_def testHex6_def isHexDigit_def toUpperCase_def
          upperChar_def)
  ultimately show False by simp
qed

section \<open>Encoding: the fallback colour and the opacity guard\<close>

lemma dropWhile_none: "(\<forall>c \<in> set s. \<not> P c) \<Longrightarrow> dropWhile P s = s"
  by (cases s) simp_all

lemma trim_without_space: "(\<forall>c \<in> set s. \<not> isWhiteSpace c) \<Longrightarrow> trim s = s"
  by (simp add: trim_def trimStart_def dropWhile_none)

lemma isHexDigit_not_space: "isHexDigit c \<Longrightarrow> \<not> isWhiteSpace c"
  by (auto simp: isHexDigit_def isWhiteSpace_def)

lemma testHex6_normalizeHex:
  assumes "testHex6 s"
  shows "normalizeHex s = s"
proof -
  from assms obtain ds where s: "s = CHR ''#'' # ds" and h: "list_all isHexDigit ds"
    using testHex6_Cons by blast
  have "\<not> isWhiteSpace CHR ''#''"
    by (simp add: isWhiteSpace_def)
  with s h have "\<forall>c \<in> set s. \<not> isWhiteSpace c"
    by (auto simp: list_all_iff isHexDigit_not_space)
  then have "trim s = s"
    by (rule trim_without_space)
  with s show ?thesis
    by (simp add: normalizeHex_def startsWith_def)
qed

lemma fallback_channels:
  "intToString (parseInt (substring ''3c3c3c'' 0 2) 16) = ''60''"
  "intToString (parseInt (substring ''3c3c3c'' 2 4) 16) = ''60''"
  "intToString (parseInt (substring ''3c3c3c'' 4 6) 16) = ''60''"
  by code_simp+

lemma hexToRgba_invalid:
  "\<not> testHex6 s \<Longrightarrow>
     hexToRgba (JStr s) opacity st =
       (''rgba(60, 60, 60, '' @ ToString (validOpacity opacity) @ '')'',
        emit (ConsoleWarn ''Invalid hex color provided: #3c3c3c. Using default.'') st)"
  by (simp add: hexToRgba_def Let_def fallback_channels)

lemma Number_toString_half: "Number_toString (Fin (1 / 2)) = ''0.5''"
  by code_simp

lemma validOpacity_half: "validOpacity (JNum (Fin (1 / 2))) = JNum (Fin (1 / 2))"
  by (simp add: validOpacity_def js_ge_def js_le_def)

lemma xyz_not_hex: "\<not> testHex6 (normalizeHex ''xyz'')"
  by code_simp

text \<open>
  Claim C5: on every string that does not match \<^verbatim>\<open>^#[0-9A-F]{6}$\<close> after trimming and
  adding the \<^verbatim>\<open>#\<close>, and for every opacity, \<^verbatim>\<open>hexToRgba\<close> returns the text built from
  the channels 60, 60, 60 of the fallback \<^verbatim>\<open>#3c3c3c\<close> and writes one warning to the console.
  The function is total on strings: no operation of it can raise there.
\<close>

theorem hexToRgba_fallback:
  "\<not> testHex6 (normalizeHex s) \<Longrightarrow>
     hexToRgba (JStr s) opacity st =
       (''rgba(60, 60, 60, '' @ ToString (validOpacity opacity) @ '')'',
        emit (ConsoleWarn ''Invalid hex color provided: #3c3c3c. Using default.'') st)"
  using hexToRgba_invalid testHex6_normalizeHex by metis

text \<open>The theorem at the string \<^verbatim>\<open>xyz\<close> and the opacity 0.5.\<close>

theorem hexToRgba_fallback_witness:
  "\<not> testHex6 (normalizeHex ''xyz'')
   \<and> hexToRgba (JStr ''xyz'') (JNum (Fin (1 / 2))) (pageOfControls []) =
       (''rgba(60, 60, 60, 0.5)'',
        emit (ConsoleWarn ''Invalid hex color provided: #3c3c3c. Using default.'')
          (pageOfControls []))"
  using hexToRgba_fallback [of "''xyz''" "JNum (Fin (1 / 2))" "pageOfControls []"]
    xyz_not_hex validOpacity_half Number_toString_half
  by simp

text \<open>
  Claim C4 at the empty string as opacity: the comparison coerces it to the number 0, the
  guard lets it through, and the text of the result has no alpha at all, where the claim
  asks for 0.7.
\<close>

theorem hexToRgba_empty_opacity:
  "StringToNumber [] = Fin 0 \<and> validOpacity (JStr []) = JStr []
   \<and> fst (hexToRgba (JStr ''#3c3c3c'') (JStr []) st) = ''rgba(60, 60, 60, )''"
  by (simp add: hexToRgba_def validOpacity_def js_ge_def js_le_def StringToNumber_def trim_def
        trimStart_def testHex6_def isHexDigit_def Let_def fallback_channels)

text \<open>The same evaluation on a page without controls.\<close>

theorem hexToRgba_empty_opacity_witness:
  "fst (hexToRgba (JStr ''#3c3c3c'') (JStr []) (pageOfControls [])) = ''rgba(60, 60, 60, )''"
  using hexToRgba_empty_opacity [of "pageOfControls []"] by simp

section \<open>How the operations change the page\<close>

lemma emit_fields [simp]:
  "menuStyles (emit e s) = menuStyles s" "document (emit e s) = document s"
  "rootStyle (emit e s) = rootStyle s" "events (emit e s) = events s @ [e]"
  by (simp_all add: emit_def)

lemma emits_fields [simp]:
  "menuStyles (emits es s) = menuStyles s" "document (emits es s) = document s"
  "rootStyle (emits es s) = rootStyle s" "events (emits es s) = events s @ es"
  by (simp_all add: emits_def)

lemma emits_Nil [simp]: "emits [] s = s"
  by (simp add: emits_def)

lemma emit_emits: "emit e s = emits [e] s"
  by (simp add: emit_def emits_def)

lemma emits_emits [simp]: "emits es (emits ds s) = emits (ds @ es) s"
  by (simp add: emits_def)

lemma safeGetValue_eq:
  "safeGetValue i d s = (valueIn (document s) i d, emits (valueReads (document s) i) s)"
  by (simp add: safeGetValue_def valueIn_def valueReads_def pageOfDocument_def emit_emits
        emits_def split: option.splits)

lemma getColorValue_eq:
  "getColorValue p s = (colorValueIn (document s) p, emits (colorReads (document s) p) s)"
  by (simp add: getColorValue_def colorValueIn_def colorReads_def safeGetValue_def
        pageOfDocument_def emit_def emits_def Let_def split: option.splits)

lemma hexToRgba_eq:
  "hexToRgba h opacity s = (rgbaText h opacity, emits (rgbaWarns h) s)"
  by (simp add: hexToRgba_def rgbaText_def rgbaWarns_def pageOfDocument_def emit_def emits_def
        Let_def)

lemma setStyle_fields [simp]:
  "menuStyles (setStyle k v s) = map_option (\<lambda>m. m(k \<mapsto> v)) (menuStyles s)"
  "document (setStyle k v s) = document s"
  "rootStyle (setStyle k v s) = rootStyle s"
  "events (setStyle k v s) = events s @ [SetModel k]"
  by (simp_all add: setStyle_def)

lemma deleteStyle_fields [simp]:
  "menuStyles (deleteStyle k s) = map_option (\<lambda>m. m(k := None)) (menuStyles s)"
  "document (deleteStyle k s) = document s"
  "rootStyle (deleteStyle k s) = rootStyle s"
  "events (deleteStyle k s) = events s @ [DeleteModel k]"
  by (simp_all add: deleteStyle_def)

lemma replaceStyles_fields [simp]:
  "menuStyles (replaceStyles obj s) = Some obj"
  "document (replaceStyles obj s) = document s"
  "rootStyle (replaceStyles obj s) = rootStyle s"
  "events (replaceStyles obj s) = events s @ [ReplaceModel]"
  by (simp_all add: replaceStyles_def)

lemma setProperty_fields [simp]:
  "menuStyles (setProperty n v s) = menuStyles s"
  "document (setProperty n v s) = document s"
  "rootStyle (setProperty n v s) = (rootStyle s)(n \<mapsto> ToString v)"
  "events (setProperty n v s) = events s @ [SetProperty n (ToString v)]"
  by (simp_all add: setProperty_def)

lemma updateMenuStylesUI_frame [simp]:
  "menuStyles (updateMenuStylesUI C s) = menuStyles s"
  "document (updateMenuStylesUI C s) = document s"
  by (simp_all add: updateMenuStylesUI_def Let_def split: option.splits)

lemma closeMenuStylePanel_frame [simp]:
  "menuStyles (closeMenuStylePanel C s) = menuStyles s"
  "rootStyle (closeMenuStylePanel C s) = rootStyle s"
  by (simp_all add: closeMenuStylePanel_def split: option.splits)

lemma applyMenuStyles_menuStyles:
  "menuStyles (applyMenuStyles C s) =
     Some ((initialStyles C s)
       (''itemBgColor'' \<mapsto> JStr (rgbaText (colorValueIn (document s) ''qr-item-bgcolor-picker'')
                                 (valueIn (document s) ''qr-item-opacity'' (JNum (binary64 (7 / 10))))),
        ''itemTextColor'' \<mapsto> js_or (colorValueIn (document s) ''qr-item-color-picker'') (JStr ''#ffffff''),
        ''titleColor'' \<mapsto> js_or (colorValueIn (document s) ''qr-title-color-picker'') (JStr ''#cccccc''),
        ''titleBorderColor'' \<mapsto> js_or (colorValueIn (document s) ''qr-title-border-picker'') (JStr ''#444444''),
        ''emptyTextColor'' \<mapsto> js_or (colorValueIn (document s) ''qr-empty-color-picker'') (JStr ''#666666''),
        ''menuBgColor'' \<mapsto> JStr (rgbaText (colorValueIn (document s) ''qr-menu-bgcolor-picker'')
                                 (valueIn (document s) ''qr-menu-opacity'' (JNum (binary64 (85 / 100))))),
        ''menuBorderColor'' \<mapsto> js_or (colorValueIn (document s) ''qr-menu-border-picker'') (JStr ''#555555''),
        ''followTheme'' := None))"
  by (cases "menuStyles s")
     (simp_all add: applyMenuStyles_def initialStyles_def Let_def getColorValue_eq safeGetValue_eq
        hexToRgba_eq)

lemma setValue_fields [simp]:
  "menuStyles (setValue i v s) = menuStyles s"
  "rootStyle (setValue i v s) = rootStyle s"
  "events (setValue i v s) = events s"
  by (simp_all add: setValue_def split: option.splits)

lemma safeSetValue_fields [simp]:
  "menuStyles (safeSetValue i v s) = menuStyles s"
  "rootStyle (safeSetValue i v s) = rootStyle s"
  "events (safeSetValue i v s) = events s"
  by (simp_all add: safeSetValue_def)

lemma safeSetText_fields [simp]:
  "menuStyles (safeSetText i v s) = menuStyles s"
  "rootStyle (safeSetText i v s) = rootStyle s"
  "events (safeSetText i v s) = events s"
  by (simp_all add: safeSetText_def split: option.splits)

lemma pageOf_simps [simp]: "pageOf (Returned s) = s" "pageOf (Thrown msg s) = s"
  by (simp_all add: pageOf_def)

lemma loadPlainColor_menuStyles [simp]:
  "menuStyles (pageOf (loadPlainColor p t c s)) = menuStyles s"
  by (simp add: loadPlainColor_def Let_def split: jsval.splits)

lemma andThen_menuStyles:
  assumes "menuStyles (pageOf r) = M"
    and "\<And>s'. menuStyles s' = M \<Longrightarrow> menuStyles (pageOf (f s')) = M"
  shows "menuStyles (pageOf (andThen r f)) = M"
  using assms by (cases r) (simp_all add: andThen_def)

lemma loadMenuStylesIntoPanel_menuStyles:
  "menuStyles (pageOf (loadMenuStylesIntoPanel C s)) = menuStyles s"
  unfolding loadMenuStylesIntoPanel_def Let_def
  by (intro andThen_menuStyles) simp_all

lemma resetMenuStyles_menuStyles:
  "menuStyles (pageOf (resetMenuStyles C s)) = Some (json_copy (DEFAULT_MENU_STYLES C))"
  unfolding resetMenuStyles_def Let_def
  by (rule andThen_menuStyles) (simp_all add: loadMenuStylesIntoPanel_menuStyles)

lemma json_copy_absent: "m k = None \<Longrightarrow> json_copy m k = None"
  by (simp add: json_copy_def)

lemma exampleConstants_followTheme: "DEFAULT_MENU_STYLES exampleConstants ''followTheme'' = None"
  by (simp add: exampleConstants_def)

lemma legacyPage_followTheme: "hasStyleKey legacyPage ''followTheme''"
  by (simp add: legacyPage_def hasStyleKey_def)

section \<open>The legacy key\<close>

text \<open>
  Claim C7: after \<^verbatim>\<open>applyMenuStyles\<close> the stored styles have no \<^verbatim>\<open>followTheme\<close> key,
  whatever they held before. After \<^verbatim>\<open>resetMenuStyles\<close>, whether it returned or raised,
  they are the copy of \<^verbatim>\<open>DEFAULT_MENU_STYLES\<close>, which has no such key as long as the
  constant has none (the constant is a parameter here).
\<close>

theorem followTheme_absent_after_apply_and_reset:
  "\<not> hasStyleKey (applyMenuStyles C s) ''followTheme''
   \<and> (DEFAULT_MENU_STYLES C ''followTheme'' = None
        \<longrightarrow> \<not> hasStyleKey (pageOf (resetMenuStyles C s)) ''followTheme'')"
  by (simp add: hasStyleKey_def applyMenuStyles_menuStyles resetMenuStyles_menuStyles
        json_copy_absent)

text \<open>The theorem on a page whose stored styles carry the legacy key.\<close>

theorem followTheme_absent_witness:
  "DEFAULT_MENU_STYLES exampleConstants ''followTheme'' = None
   \<and> hasStyleKey legacyPage ''followTheme''
   \<and> \<not> hasStyleKey (applyMenuStyles exampleConstants legacyPage) ''followTheme''
   \<and> \<not> hasStyleKey (pageOf (resetMenuStyles exampleConstants legacyPage)) ''followTheme''"
  using followTheme_absent_after_apply_and_reset [of exampleConstants legacyPage]
    exampleConstants_followTheme legacyPage_followTheme
  by simp

section \<open>What the readers and the appliers compute\<close>

lemma valueIn_eq: "valueIn D i d = (case D i of Some e \<Rightarrow> JStr (elem_value e) | None \<Rightarrow> d)"
  by (simp add: valueIn_def safeGetValue_def pageOfDocument_def split: option.splits)

lemma colorValueIn_eq:
  "colorValueIn D p =
     (case D (p @ ''-text'') of
        Some t \<Rightarrow> if testHex6 (elem_value t) then JStr (elem_value t) else valueIn D p JNull
      | None \<Rightarrow> valueIn D p JNull)"
  by (simp add: colorValueIn_def getColorValue_def valueIn_def safeGetValue_def pageOfDocument_def
        Let_def split: option.splits)

lemma updateMenuStylesUI_rootStyle:
  "rootStyle (updateMenuStylesUI C s) = liveStyleAfter C (menuStyles s) (document s) (rootStyle s)"
  by (simp add: liveStyleAfter_def updateMenuStylesUI_def Let_def split: option.splits)

lemma updateMenuStylesUI_events:
  "events (updateMenuStylesUI C s) = events s @ renderEvents C (menuStyles s) (document s)"
  by (simp add: renderEvents_def updateMenuStylesUI_def Let_def split: option.splits)

lemma closeMenuStylePanel_events:
  "events (closeMenuStylePanel C s) = events s @ closeEvents C (document s)"
  by (simp add: closeEvents_def closeMenuStylePanel_def pageOfDocument_def split: option.splits)

lemma closeMenuStylePanel_document:
  "document (closeMenuStylePanel C s) =
     (case document s (ID_MENU_STYLE_PANEL C) of
        Some e \<Rightarrow> (document s)(ID_MENU_STYLE_PANEL C \<mapsto> e\<lparr>elem_display := ''none''\<rparr>)
      | None \<Rightarrow> document s)"
  by (simp add: closeMenuStylePanel_def split: option.splits)

lemma applyMenuStyles_rootStyle:
  "rootStyle (applyMenuStyles C s) =
     liveStyleAfter C (menuStyles (applyMenuStyles C s)) (document s) (rootStyle s)"
  by (cases "menuStyles s")
     (simp_all add: applyMenuStyles_def Let_def getColorValue_eq safeGetValue_eq hexToRgba_eq
        updateMenuStylesUI_rootStyle)

lemma liveStyleAfter_item_bg:
  "D (ID_MENU C) \<noteq> None \<Longrightarrow>
     liveStyleAfter C (Some m) D R ''--qr-item-bg-color'' =
       Some (ToString (js_or (getProp m ''itemBgColor'') (JStr ''rgba(60, 60, 60, 0.7)'')))"
  by (auto simp: liveStyleAfter_def updateMenuStylesUI_def Let_def)

section \<open>The alpha-bearing slots after apply\<close>

lemma rgbaText_fallback_empty: "rgbaText JNull (JStr []) = ''rgba(60, 60, 60, )''"
  by (simp add: rgbaText_def hexToRgba_def validOpacity_def js_ge_def js_le_def
        StringToNumber_def trim_def trimStart_def Let_def fallback_channels)

lemma rgbaMatch_empty_alpha: "rgbaMatch ''rgba(60, 60, 60, )'' = None"
  by code_simp

text \<open>
  Claim C8 at a panel whose item-opacity control holds the empty string: the control's value
  passes the guard of \<^verbatim>\<open>hexToRgba\<close>, and the slot \<^verbatim>\<open>itemBgColor\<close> receives a text
  without alpha, which the pattern of the decoder itself does not match.
\<close>

theorem applyMenuStyles_empty_opacity:
  "styleOf (applyMenuStyles C (pageOfControls [(''qr-item-opacity'', control [])])) ''itemBgColor''
     = Some (JStr ''rgba(60, 60, 60, )'')
   \<and> rgbaMatch ''rgba(60, 60, 60, )'' = None"
proof (rule conjI)
  show "styleOf (applyMenuStyles C (pageOfControls [(''qr-item-opacity'', control [])]))
      ''itemBgColor'' = Some (JStr ''rgba(60, 60, 60, )'')"
    by (simp add: styleOf_def applyMenuStyles_menuStyles pageOfControls_def pageOfDocument_def
          colorValueIn_eq valueIn_eq control_def rgbaText_fallback_empty)
  show "rgbaMatch ''rgba(60, 60, 60, )'' = None"
    by (rule rgbaMatch_empty_alpha)
qed

text \<open>The same evaluation with the example constants.\<close>

theorem applyMenuStyles_empty_opacity_witness:
  "styleOf (applyMenuStyles exampleConstants (pageOfControls [(''qr-item-opacity'', control [])]))
     ''itemBgColor'' = Some (JStr ''rgba(60, 60, 60, )'')"
  using applyMenuStyles_empty_opacity [of exampleConstants] by simp

section \<open>End to end: typing a colour, then apply\<close>

lemma textIdOf_item_bg: "textIdOf ''qr-item-bgcolor-picker'' = ''qr-item-bgcolor-text''"
  by code_simp

lemma typed_ff00ff:
  "trim ''ff00ff'' = ''ff00ff''" "testHex6Opt ''ff00ff''" "\<not> startsWith ''ff00ff'' ''#''"
  "toUpperCase ''#ff00ff'' = ''#FF00FF''"
  by code_simp+

lemma rgbaText_ff00ff: "rgbaText (JStr ''#ff00ff'') (JStr ''0.9'') = ''rgba(255, 0, 255, 0.9)''"
  by code_simp

text \<open>
  Claim C1: the item-background text control receives \<^verbatim>\<open>ff00ff\<close> and its input listener
  runs; the item-opacity slider holds \<^verbatim>\<open>0.9\<close>. Then \<^verbatim>\<open>applyMenuStyles\<close> stores
  \<^verbatim>\<open>rgba(255, 0, 255, 0.9)\<close> in the slot \<^verbatim>\<open>itemBgColor\<close> and sets the live variable
  \<^verbatim>\<open>--qr-item-bg-color\<close> to the same text. The panel is the one the source names: the
  pair and the slider exist, the menu root (the live surface) exists, and no element has the
  id \<^verbatim>\<open>qr-item-bgcolor-picker-text\<close>, which \<^verbatim>\<open>getColorValue\<close> looks up first.
\<close>

theorem apply_after_typing_ff00ff:
  assumes picker: "document s ''qr-item-bgcolor-picker'' = Some p"
    and textInput: "document s ''qr-item-bgcolor-text'' = Some t"
    and slider: "valueOf s ''qr-item-opacity'' = Some ''0.9''"
    and no_other: "document s ''qr-item-bgcolor-picker-text'' = None"
    and menu: "document s (ID_MENU C) \<noteq> None"
  shows "styleOf (applyMenuStyles C (onTextInput ''qr-item-bgcolor-picker''
                    (typeText ''qr-item-bgcolor-text'' ''ff00ff'' s))) ''itemBgColor''
           = Some (JStr ''rgba(255, 0, 255, 0.9)'')
       \<and> rootStyle (applyMenuStyles C (onTextInput ''qr-item-bgcolor-picker''
                    (typeText ''qr-item-bgcolor-text'' ''ff00ff'' s))) ''--qr-item-bg-color''
           = Some ''rgba(255, 0, 255, 0.9)''"
proof -
  let ?s1 = "typeText ''qr-item-bgcolor-text'' ''ff00ff'' s"
  let ?s2 = "onTextInput ''qr-item-bgcolor-picker'' ?s1"
  let ?D = "document ?s2"
  have d1: "document ?s1 = (document s)(''qr-item-bgcolor-text'' \<mapsto> t\<lparr>elem_value := ''ff00ff''\<rparr>)"
    using textInput by (simp add: typeText_def setValue_def)
  have d2: "?D = (document s)
      (''qr-item-bgcolor-picker'' \<mapsto> p\<lparr>elem_value := ''#ff00ff''\<rparr>,
       ''qr-item-bgcolor-text'' \<mapsto> t\<lparr>elem_value := ''#FF00FF''\<rparr>)"
    using picker
    by (simp add: onTextInput_def textIdOf_item_bg d1 typed_ff00ff Let_def setValue_def
          fun_upd_twist)
  obtain e where e: "document s ''qr-item-opacity'' = Some e" "elem_value e = ''0.9''"
    using slider by (auto simp: valueOf_def)
  have hex: "colorValueIn ?D ''qr-item-bgcolor-picker'' = JStr ''#ff00ff''"
    using no_other by (simp add: colorValueIn_eq valueIn_eq d2)
  have opacity: "valueIn ?D ''qr-item-opacity'' d = JStr ''0.9''" for d
    using e by (simp add: valueIn_eq d2)
  have slot: "styleOf (applyMenuStyles C ?s2) ''itemBgColor'' = Some (JStr ''rgba(255, 0, 255, 0.9)'')"
    by (simp add: styleOf_def applyMenuStyles_menuStyles hex opacity rgbaText_ff00ff)
  have "?D (ID_MENU C) \<noteq> None"
    using menu by (simp add: d2)
  moreover obtain m where m: "menuStyles (applyMenuStyles C ?s2) = Some m"
    by (simp add: applyMenuStyles_menuStyles)
  moreover from slot m have "getProp m ''itemBgColor'' = JStr ''rgba(255, 0, 255, 0.9)''"
    by (simp add: styleOf_def getProp_def)
  ultimately have "rootStyle (applyMenuStyles C ?s2) ''--qr-item-bg-color''
      = Some ''rgba(255, 0, 255, 0.9)''"
    by (simp add: applyMenuStyles_rootStyle liveStyleAfter_item_bg js_or_def)
  with slot show ?thesis by simp
qed

text \<open>The theorem on the example panel.\<close>

theorem apply_after_typing_ff00ff_witness:
  "valueOf examplePanel ''qr-item-bgcolor-picker'' = Some ''#000000''
   \<and> valueOf examplePanel ''qr-item-bgcolor-text'' = Some ''#000000''
   \<and> valueOf examplePanel ''qr-item-opacity'' = Some ''0.9''
   \<and> document examplePanel ''qr-item-bgcolor-picker-text'' = None
   \<and> document examplePanel (ID_MENU exampleConstants) \<noteq> None
   \<and> styleOf (applyMenuStyles exampleConstants (onTextInput ''qr-item-bgcolor-picker''
                 (typeText ''qr-item-bgcolor-text'' ''ff00ff'' examplePanel))) ''itemBgColor''
         = Some (JStr ''rgba(255, 0, 255, 0.9)'')
   \<and> rootStyle (applyMenuStyles exampleConstants (onTextInput ''qr-item-bgcolor-picker''
                 (typeText ''qr-item-bgcolor-text'' ''ff00ff'' examplePanel))) ''--qr-item-bg-color''
         = Some ''rgba(255, 0, 255, 0.9)''"
  using apply_after_typing_ff00ff [of examplePanel "control ''#000000''" "control ''#000000''"
      exampleConstants]
  by (simp add: examplePanel_def pageOfControls_def pageOfDocument_def valueOf_def control_def
        exampleConstants_def)

section \<open>FieldSync: the listeners of the text control\<close>

lemma onTextInput_valid:
  assumes "document s pid = Some p" "document s (textIdOf pid) = Some t" "textIdOf pid \<noteq> pid"
    and "testHex6Opt (trim (elem_value t))"
  shows "document (onTextInput pid s) =
           (document s)(pid \<mapsto> p\<lparr>elem_value := normalizeHex (elem_value t)\<rparr>,
             textIdOf pid \<mapsto> t\<lparr>elem_value := toUpperCase (normalizeHex (elem_value t))\<rparr>)"
  using assms by (simp add: onTextInput_def normalizeHex_def Let_def setValue_def)

lemma onTextChange_invalid:
  assumes "document s pid = Some p" "document s (textIdOf pid) = Some t"
    and "\<not> testHex6Opt (trim (elem_value t))"
  shows "document (onTextChange pid s) =
           (document s)(textIdOf pid \<mapsto> t\<lparr>elem_value := toUpperCase (elem_value p)\<rparr>)"
  using assms by (simp add: onTextChange_def Let_def setValue_def)

text \<open>
  Claim C6, as the code has it, for a picker and its text control (two elements): an input
  event whose trimmed value matches \<^verbatim>\<open>^#?[0-9A-F]{6}$\<close> sets the picker to the trimmed
  value with the \<^verbatim>\<open>#\<close> in front, in the letter case typed, and the text control to the
  upper-case form of that; an input event with any other value changes nothing; a change
  event with such a value sets the text control to the picker's value in upper case and
  leaves the picker as it is.
\<close>

theorem fieldSync_text_listeners:
  assumes "document s pid = Some p" "document s (textIdOf pid) = Some t" "textIdOf pid \<noteq> pid"
  shows "(testHex6Opt (trim (elem_value t)) \<longrightarrow>
            valueOf (onTextInput pid s) pid = Some (normalizeHex (elem_value t))
            \<and> valueOf (onTextInput pid s) (textIdOf pid)
                = Some (toUpperCase (normalizeHex (elem_value t))))
       \<and> (\<not> testHex6Opt (trim (elem_value t)) \<longrightarrow>
            onTextInput pid s = s
            \<and> valueOf (onTextChange pid s) pid = Some (elem_value p)
            \<and> valueOf (onTextChange pid s) (textIdOf pid) = Some (toUpperCase (elem_value p)))"
proof (intro conjI impI)
  assume v: "testHex6Opt (trim (elem_value t))"
  show "valueOf (onTextInput pid s) pid = Some (normalizeHex (elem_value t))"
    using assms v by (simp add: valueOf_def onTextInput_valid)
  show "valueOf (onTextInput pid s) (textIdOf pid)
      = Some (toUpperCase (normalizeHex (elem_value t)))"
    using assms v by (simp add: valueOf_def onTextInput_valid)
next
  assume v: "\<not> testHex6Opt (trim (elem_value t))"
  show "onTextInput pid s = s"
    using assms v by (simp add: onTextInput_def)
  show "valueOf (onTextChange pid s) pid = Some (elem_value p)"
    using assms v by (simp add: valueOf_def onTextChange_invalid)
  show "valueOf (onTextChange pid s) (textIdOf pid) = Some (toUpperCase (elem_value p))"
    using assms v by (simp add: valueOf_def onTextChange_invalid)
qed

lemma typeText_document:
  "document (typeText i v s) =
     (case document s i of
        Some e \<Rightarrow> (document s)(i \<mapsto> e\<lparr>elem_value := v\<rparr>)
      | None \<Rightarrow> document s)"
  by (simp add: typeText_def setValue_def split: option.splits)

lemma examplePanel_typed:
  "document (typeText ''qr-item-bgcolor-text'' v examplePanel) ''qr-item-bgcolor-picker''
     = Some (control ''#000000'')"
  "document (typeText ''qr-item-bgcolor-text'' v examplePanel) ''qr-item-bgcolor-text''
     = Some (control v)"
  by (simp_all add: typeText_def setValue_def examplePanel_def pageOfControls_def
        pageOfDocument_def control_def)

lemma typed_zz: "\<not> testHex6Opt (trim ''zz'')" "toUpperCase ''#000000'' = ''#000000''"
  by code_simp+

lemma typed_ff00ff_normal:
  "testHex6Opt (trim ''ff00ff'')" "normalizeHex ''ff00ff'' = ''#ff00ff''"
  "toUpperCase (normalizeHex ''ff00ff'') = ''#FF00FF''"
  by code_simp+

text \<open>The theorem on the example panel, after typing \<^verbatim>\<open>ff00ff\<close> and after typing \<^verbatim>\<open>zz\<close>.\<close>

theorem fieldSync_text_listeners_witness:
  "testHex6Opt (trim ''ff00ff'')
   \<and> valueOf (onTextInput ''qr-item-bgcolor-picker''
        (typeText ''qr-item-bgcolor-text'' ''ff00ff'' examplePanel)) ''qr-item-bgcolor-picker''
       = Some ''#ff00ff''
   \<and> valueOf (onTextInput ''qr-item-bgcolor-picker''
        (typeText ''qr-item-bgcolor-text'' ''ff00ff'' examplePanel)) ''qr-item-bgcolor-text''
       = Some ''#FF00FF''
   \<and> \<not> testHex6Opt (trim ''zz'')
   \<and> onTextInput ''qr-item-bgcolor-picker''
        (typeText ''qr-item-bgcolor-text'' ''zz'' examplePanel)
       = typeText ''qr-item-bgcolor-text'' ''zz'' examplePanel
   \<and> valueOf (onTextChange ''qr-item-bgcolor-picker''
        (typeText ''qr-item-bgcolor-text'' ''zz'' examplePanel)) ''qr-item-bgcolor-text''
       = Some ''#000000''"
  using fieldSync_text_listeners [of "typeText ''qr-item-bgcolor-text'' ''ff00ff'' examplePanel"
      "''qr-item-bgcolor-picker''" "control ''#000000''" "control ''ff00ff''"]
    fieldSync_text_listeners [of "typeText ''qr-item-bgcolor-text'' ''zz'' examplePanel"
      "''qr-item-bgcolor-picker''" "control ''#000000''" "control ''zz''"]
  by (simp add: examplePanel_typed textIdOf_item_bg typed_zz typed_ff00ff_normal typed_ff00ff
        control_def)

text \<open>
  C6 as stated fails twice. After \<^verbatim>\<open>ff00ff\<close> is typed the picker holds \<^verbatim>\<open>#ff00ff\<close>, not
  the upper-case normalization \<^verbatim>\<open>#FF00FF\<close>; and when \<^verbatim>\<open>zz\<close> is then typed and
  committed, the text control is set to \<^verbatim>\<open>#FF00FF\<close>, not to the picker's value.
\<close>

theorem fieldSync_picker_counterexample:
  "testHex6Opt (trim ''ff00ff'')
   \<and> valueOf (onTextInput ''qr-item-bgcolor-picker''
        (typeText ''qr-item-bgcolor-text'' ''ff00ff'' examplePanel)) ''qr-item-bgcolor-picker''
       = Some ''#ff00ff''
   \<and> valueOf (onTextInput ''qr-item-bgcolor-picker''
        (typeText ''qr-item-bgcolor-text'' ''ff00ff'' examplePanel)) ''qr-item-bgcolor-picker''
       \<noteq> Some (toUpperCase (normalizeHex ''ff00ff''))
   \<and> \<not> testHex6Opt (trim ''zz'')
   \<and> valueOf (onTextChange ''qr-item-bgcolor-picker'' (typeText ''qr-item-bgcolor-text'' ''zz''
        (onTextInput ''qr-item-bgcolor-picker''
          (typeText ''qr-item-bgcolor-text'' ''ff00ff'' examplePanel)))) ''qr-item-bgcolor-text''
       = Some ''#FF00FF''
   \<and> valueOf (onTextChange ''qr-item-bgcolor-picker'' (typeText ''qr-item-bgcolor-text'' ''zz''
        (onTextInput ''qr-item-bgcolor-picker''
          (typeText ''qr-item-bgcolor-text'' ''ff00ff'' examplePanel)))) ''qr-item-bgcolor-picker''
       = Some ''#ff00ff''"
proof -
  let ?s2 = "onTextInput ''qr-item-bgcolor-picker''
    (typeText ''qr-item-bgcolor-text'' ''ff00ff'' examplePanel)"
  let ?s3 = "typeText ''qr-item-bgcolor-text'' ''zz'' ?s2"
  have d2: "document ?s2 =
      (document (typeText ''qr-item-bgcolor-text'' ''ff00ff'' examplePanel))
        (''qr-item-bgcolor-picker'' \<mapsto> control ''#ff00ff'',
         ''qr-item-bgcolor-text'' \<mapsto> control ''#FF00FF'')"
    using onTextInput_valid [of "typeText ''qr-item-bgcolor-text'' ''ff00ff'' examplePanel"
        "''qr-item-bgcolor-picker''" "control ''#000000''" "control ''ff00ff''"]
    by (simp add: examplePanel_typed textIdOf_item_bg typed_ff00ff_normal typed_ff00ff
          control_def)
  have d3: "document ?s3 ''qr-item-bgcolor-picker'' = Some (control ''#ff00ff'')"
    "document ?s3 ''qr-item-bgcolor-text'' = Some (control ''zz'')"
    by (simp_all add: typeText_document d2 control_def)
  have input: "valueOf ?s2 ''qr-item-bgcolor-picker'' = Some ''#ff00ff''"
    by (simp add: valueOf_def d2 control_def)
  have change: "document (onTextChange ''qr-item-bgcolor-picker'' ?s3) =
      (document ?s3)(''qr-item-bgcolor-text'' \<mapsto> control ''#FF00FF'')"
    using onTextChange_invalid [of ?s3 "''qr-item-bgcolor-picker''" "control ''#ff00ff''"
        "control ''zz''"] d3
    by (simp add: textIdOf_item_bg typed_zz typed_ff00ff control_def)
  have "valueOf (onTextChange ''qr-item-bgcolor-picker'' ?s3) ''qr-item-bgcolor-text''
      = Some ''#FF00FF''"
    by (simp add: valueOf_def change control_def)
  moreover have "valueOf (onTextChange ''qr-item-bgcolor-picker'' ?s3) ''qr-item-bgcolor-picker''
      = Some ''#ff00ff''"
    by (simp add: valueOf_def change d3 control_def)
  ultimately show ?thesis
    using input by (simp add: typed_ff00ff_normal typed_ff00ff typed_zz)
qed

section \<open>Decoding and encoding an rgba text\<close>










lemma radixValue_snoc: "radixValue R (ds @ [c]) = R * radixValue R ds + digitValue c"
  by (simp add: radixValue_def)



























section \<open>The order of effects inside apply\<close>

lemma applyMenuStyles_events: "events (applyMenuStyles C s) = events s @ applyTrace C s"
  by (cases "menuStyles s")
     (simp_all add: applyMenuStyles_def applyTrace_def Let_def getColorValue_eq safeGetValue_eq
        hexToRgba_eq updateMenuStylesUI_events closeMenuStylePanel_events)

lemma newEvents_apply: "newEvents s (applyMenuStyles C s) = applyTrace C s"
  by (simp add: newEvents_def applyMenuStyles_events)

lemma applyMenuStyles_document:
  "document (applyMenuStyles C s) = document (closeMenuStylePanel C s)"
  by (cases "menuStyles s")
     (simp_all add: applyMenuStyles_def Let_def getColorValue_eq safeGetValue_eq hexToRgba_eq
        closeMenuStylePanel_document split: option.splits)

lemma panelHidden_apply: "panelHidden C (applyMenuStyles C s)"
  by (simp add: panelHidden_def applyMenuStyles_document closeMenuStylePanel_document
        split: option.splits)

lemma valueReads_set: "e \<in> set (valueReads D i) \<Longrightarrow> e = ReadValue i"
  by (auto simp: valueReads_def safeGetValue_def pageOfDocument_def emit_def split: option.splits)

lemma colorReads_set:
  "e \<in> set (colorReads D p) \<Longrightarrow> e = ReadValue (p @ ''-text'') \<or> e = ReadValue p"
  by (auto simp: colorReads_def getColorValue_def safeGetValue_def pageOfDocument_def emit_def
        Let_def split: option.splits if_splits)

lemma rgbaWarns_set: "e \<in> set (rgbaWarns h) \<Longrightarrow> \<exists>m. e = ConsoleWarn m"
  by (auto simp: rgbaWarns_def hexToRgba_def pageOfDocument_def emit_def Let_def
        split: if_splits)

lemma renderEvents_set: "e \<in> set (renderEvents C m D) \<Longrightarrow> \<exists>n v. e = SetProperty n v"
  by (auto simp: renderEvents_def updateMenuStylesUI_def Let_def split: option.splits)

lemma closeEvents_set: "e \<in> set (closeEvents C D) \<Longrightarrow> \<exists>i v. e = SetDisplay i v"
  by (auto simp: closeEvents_def closeMenuStylePanel_def pageOfDocument_def
        split: option.splits)

lemma list_ex_valueReads: "\<not> P (ReadValue i) \<Longrightarrow> list_ex P (valueReads D i) = False"
  using valueReads_set by (fastforce simp: list_ex_iff)

lemma list_ex_colorReads:
  "\<not> P (ReadValue (p @ ''-text'')) \<Longrightarrow> \<not> P (ReadValue p) \<Longrightarrow> list_ex P (colorReads D p) = False"
  using colorReads_set by (fastforce simp: list_ex_iff)

lemma list_ex_rgbaWarns: "(\<And>m. \<not> P (ConsoleWarn m)) \<Longrightarrow> list_ex P (rgbaWarns h) = False"
  using rgbaWarns_set by (fastforce simp: list_ex_iff)

lemma list_ex_renderEvents:
  "(\<And>n v. \<not> P (SetProperty n v)) \<Longrightarrow> list_ex P (renderEvents C m D) = False"
  using renderEvents_set by (fastforce simp: list_ex_iff)

lemma list_ex_closeEvents:
  "(\<And>i v. \<not> P (SetDisplay i v)) \<Longrightarrow> list_ex P (closeEvents C D) = False"
  using closeEvents_set by (fastforce simp: list_ex_iff)

lemmas list_ex_pieces =
  list_ex_valueReads list_ex_colorReads list_ex_rgbaWarns list_ex_renderEvents
  list_ex_closeEvents

lemma allBefore_append:
  "allBefore P Q (xs @ ys) =
     (allBefore P Q xs \<and> allBefore P Q ys \<and> (list_ex Q xs \<longrightarrow> \<not> list_ex P ys))"
  by (induction xs) auto

lemma allBefore_without_later: "\<not> list_ex Q xs \<Longrightarrow> allBefore P Q xs"
  by (induction xs) auto

lemma allBefore_without_earlier: "\<not> list_ex P xs \<Longrightarrow> allBefore P Q xs"
  by (induction xs) auto

lemma allBefore_phases:
  "\<not> list_ex Q xs \<Longrightarrow> \<not> list_ex P ys \<Longrightarrow> allBefore P Q (xs @ ys)"
  by (simp add: allBefore_append allBefore_without_later allBefore_without_earlier)

lemma writes_before_render: "allBefore isWrite isRender (applyTrace C s)"
  by (simp add: applyTrace_def Let_def allBefore_append list_ex_pieces
        allBefore_without_later allBefore_without_earlier)

lemma reads_before_render: "allBefore isRead isRender (applyTrace C s)"
  by (simp add: applyTrace_def Let_def allBefore_append list_ex_pieces
        allBefore_without_later allBefore_without_earlier)

lemma render_before_close: "allBefore isRender isClose (applyTrace C s)"
  by (simp add: applyTrace_def Let_def allBefore_append list_ex_pieces
        allBefore_without_later allBefore_without_earlier)

lemma slot_reads_before_write:
  "k \<in> set (map fst slotControls) \<Longrightarrow>
     allBefore (readsControlOf k) (writesSlot k) (applyTrace C s)"
  by (auto simp: slotControls_def applyTrace_def Let_def allBefore_append list_ex_pieces
        allBefore_without_later allBefore_without_earlier readsControlOf_def writesSlot_def)

lemma slot_written:
  "k \<in> set (map fst slotControls) \<Longrightarrow> list_ex (writesSlot k) (applyTrace C s)"
  by (auto simp: slotControls_def applyTrace_def Let_def writesSlot_def)

lemma reads_are_of_controls:
  "\<not> list_ex (\<lambda>e. isRead e \<and> \<not> readsSomeControl e) (applyTrace C s)"
  by (simp add: applyTrace_def Let_def list_ex_pieces readsSomeControl_def readsControlOf_def
        slotControls_def)

lemma twoPickerPage_trace:
  "newEvents twoPickerPage (applyMenuStyles exampleConstants twoPickerPage) =
     [ReadValue ''qr-item-bgcolor-picker'', SetModel ''itemBgColor'',
      ReadValue ''qr-item-color-picker'', SetModel ''itemTextColor'',
      SetModel ''titleColor'', SetModel ''titleBorderColor'', SetModel ''emptyTextColor'',
      ConsoleWarn ''Invalid hex color provided: #3c3c3c. Using default.'',
      SetModel ''menuBgColor'', SetModel ''menuBorderColor'', DeleteModel ''followTheme'',
      SetDisplay ''quick-reply-menu-style-panel'' ''none'',
      ConsoleLog ''[quick-reply-menu] Menu styles applied. Remember to save settings.'']"
  by code_simp

lemma examplePanel_trace:
  "newEvents examplePanel (applyMenuStyles exampleConstants examplePanel) =
     [ReplaceModel,
      ReadValue ''qr-item-bgcolor-picker'', ReadValue ''qr-item-opacity'',
      SetModel ''itemBgColor'', SetModel ''itemTextColor'', SetModel ''titleColor'',
      SetModel ''titleBorderColor'', SetModel ''emptyTextColor'',
      ConsoleWarn ''Invalid hex color provided: #3c3c3c. Using default.'',
      SetModel ''menuBgColor'', SetModel ''menuBorderColor'', DeleteModel ''followTheme'',
      SetProperty ''--qr-item-bg-color'' ''rgba(0, 0, 0, 0.9)'',
      SetProperty ''--qr-item-text-color'' ''#ffffff'',
      SetProperty ''--qr-title-color'' ''#cccccc'',
      SetProperty ''--qr-title-border-color'' ''#444444'',
      SetProperty ''--qr-empty-text-color'' ''#666666'',
      SetProperty ''--qr-menu-bg-color'' ''rgba(60, 60, 60, 0.85)'',
      SetProperty ''--qr-menu-border-color'' ''#555555'',
      SetDisplay ''quick-reply-menu-style-panel'' ''none'',
      ConsoleLog ''[quick-reply-menu] Menu styles applied. Remember to save settings.'']"
  by code_simp

lemma itemBgColor_is_slot: "''itemBgColor'' \<in> set (map fst slotControls)"
  by (simp add: slotControls_def)

text \<open>
  Claim C9, as the code has it. Within one invocation of \<^verbatim>\<open>applyMenuStyles\<close>: for each
  of the seven slots, every read of a control that feeds the slot comes before the write of
  that slot, the slot is written, and no other control value is read (reads and writes of
  different slots alternate); every read and every mutation of the model comes before the
  first write to the live style; every write to the live style comes before the panel is
  closed; and on return the panel container, when the document has it, is not displayed.
\<close>

theorem apply_ordering:
  "(\<forall>k \<in> set (map fst slotControls).
       allBefore (readsControlOf k) (writesSlot k) (newEvents s (applyMenuStyles C s))
       \<and> list_ex (writesSlot k) (newEvents s (applyMenuStyles C s)))
   \<and> \<not> list_ex (\<lambda>e. isRead e \<and> \<not> readsSomeControl e) (newEvents s (applyMenuStyles C s))
   \<and> allBefore isRead isRender (newEvents s (applyMenuStyles C s))
   \<and> allBefore isWrite isRender (newEvents s (applyMenuStyles C s))
   \<and> allBefore isRender isClose (newEvents s (applyMenuStyles C s))
   \<and> panelHidden C (applyMenuStyles C s)"
  unfolding newEvents_apply
  using slot_reads_before_write slot_written reads_are_of_controls reads_before_render
    writes_before_render render_before_close panelHidden_apply
  by blast

text \<open>The theorem on the example panel, whose journal has reads, live-style writes and the close.\<close>

theorem apply_ordering_witness:
  "list_ex isRead (newEvents examplePanel (applyMenuStyles exampleConstants examplePanel))
   \<and> list_ex isRender (newEvents examplePanel (applyMenuStyles exampleConstants examplePanel))
   \<and> list_ex isClose (newEvents examplePanel (applyMenuStyles exampleConstants examplePanel))
   \<and> allBefore (readsControlOf ''itemBgColor'') (writesSlot ''itemBgColor'')
        (newEvents examplePanel (applyMenuStyles exampleConstants examplePanel))
   \<and> list_ex (writesSlot ''itemBgColor'')
        (newEvents examplePanel (applyMenuStyles exampleConstants examplePanel))
   \<and> allBefore isRead isRender
        (newEvents examplePanel (applyMenuStyles exampleConstants examplePanel))
   \<and> allBefore isWrite isRender
        (newEvents examplePanel (applyMenuStyles exampleConstants examplePanel))
   \<and> allBefore isRender isClose
        (newEvents examplePanel (applyMenuStyles exampleConstants examplePanel))
   \<and> panelHidden exampleConstants (applyMenuStyles exampleConstants examplePanel)"
proof -
  note th = apply_ordering [of examplePanel exampleConstants]
  have present:
    "list_ex isRead (newEvents examplePanel (applyMenuStyles exampleConstants examplePanel))"
    "list_ex isRender (newEvents examplePanel (applyMenuStyles exampleConstants examplePanel))"
    "list_ex isClose (newEvents examplePanel (applyMenuStyles exampleConstants examplePanel))"
    unfolding examplePanel_trace by simp_all
  show ?thesis
    using th itemBgColor_is_slot present by blast
qed

text \<open>
  C9 as stated, "the form controls are read before the model is mutated", fails: with the
  pickers of the first two slots in the document, the slot \<^verbatim>\<open>itemBgColor\<close> is written
  before the picker of \<^verbatim>\<open>itemTextColor\<close> is read.
\<close>

theorem apply_reads_before_writes_counterexample:
  "newEvents twoPickerPage (applyMenuStyles exampleConstants twoPickerPage) =
     [ReadValue ''qr-item-bgcolor-picker'', SetModel ''itemBgColor'',
      ReadValue ''qr-item-color-picker'', SetModel ''itemTextColor'',
      SetModel ''titleColor'', SetModel ''titleBorderColor'', SetModel ''emptyTextColor'',
      ConsoleWarn ''Invalid hex color provided: #3c3c3c. Using default.'',
      SetModel ''menuBgColor'', SetModel ''menuBorderColor'', DeleteModel ''followTheme'',
      SetDisplay ''quick-reply-menu-style-panel'' ''none'',
      ConsoleLog ''[quick-reply-menu] Menu styles applied. Remember to save settings.'']
   \<and> \<not> allBefore isRead isWrite
         (newEvents twoPickerPage (applyMenuStyles exampleConstants twoPickerPage))"
  unfolding twoPickerPage_trace by simp

end
